theory Spec2Isabelle
  imports Main "HOL-Library.AList"
begin

section \<open>Values exchanged with YAML and JSON\<close>

text \<open>
  The rule modules build Python dictionaries and hand them to \<^verbatim>\<open>yaml.dump\<close>; they read
  whatever \<^verbatim>\<open>yaml.safe_load\<close> returns. The SDK client reads what \<^verbatim>\<open>response.json()\<close>
  returns. All of these are Python values built from \<^verbatim>\<open>None\<close>, booleans, integers, strings,
  lists and dictionaries. A dictionary is an association list in insertion order (the order
  \<^verbatim>\<open>yaml.dump(..., sort_keys=False)\<close> keeps) that is read through \<open>map_of\<close>; keys are
  strings. Floats, timestamps and dictionaries keyed by something else than a string, which a
  foreign file may hold, are not represented.
\<close>

datatype yval =
    YNull
  | YBool bool
  | YInt int
  | YStr string
  | YList "yval list"
  | YDict "(string \<times> yval) list"

text \<open>
  Everything the modelled code can raise. The first group are exceptions the code raises
  without naming them: \<^verbatim>\<open>x.get(...)\<close> on a value that is not a dictionary,
  \<^verbatim>\<open>d[k]\<close> on a missing key, an operation on a value of the wrong type, a body that is not
  JSON, a YAML document that does not parse, a directory that cannot be created, and a
  pydantic constructor that rejects its arguments. The second group is \<^verbatim>\<open>exceptions.py\<close>: \<^verbatim>\<open>APIError\<close> and its subclasses
  \<^verbatim>\<open>NotFoundError\<close> and \<^verbatim>\<open>RateLimitError\<close> hold a message, a status code and a response
  (both default to \<^verbatim>\<open>None\<close>); \<^verbatim>\<open>AuthenticationError\<close> derives from \<^verbatim>\<open>PatronusError\<close>
  directly and holds the message only.
\<close>

datatype exn =
    AttributeError
  | KeyError string
  | TypeError
  | JSONDecodeError
  | YAMLError
  | FileNotFoundError
  | PydanticValidationError
  | APIError yval "int option" "yval option"
  | AuthenticationError yval
  | NotFoundError yval "int option" "yval option"
  | RateLimitError yval "int option" "yval option"

text \<open>\<^verbatim>\<open>isinstance(e, PatronusError)\<close>: the typed failures of the SDK.\<close>

fun is_patronus_error :: "exn \<Rightarrow> bool" where
  "is_patronus_error (APIError m s r) = True"
| "is_patronus_error (AuthenticationError m) = True"
| "is_patronus_error (NotFoundError m s r) = True"
| "is_patronus_error (RateLimitError m s r) = True"
| "is_patronus_error e = False"

text \<open>
  \<^verbatim>\<open>e.status_code\<close> where the exception has that attribute and it is not \<^verbatim>\<open>None\<close>;
  \<open>None\<close> otherwise (an \<^verbatim>\<open>AuthenticationError\<close> has no such attribute).
\<close>

fun exn_status_code :: "exn \<Rightarrow> int option" where
  "exn_status_code (APIError m s r) = s"
| "exn_status_code (NotFoundError m s r) = s"
| "exn_status_code (RateLimitError m s r) = s"
| "exn_status_code e = None"

text \<open>The argument the SDK exception was constructed with (what \<^verbatim>\<open>str(e)\<close> shows).\<close>

fun exn_message :: "exn \<Rightarrow> yval option" where
  "exn_message (APIError m s r) = Some m"
| "exn_message (AuthenticationError m) = Some m"
| "exn_message (NotFoundError m s r) = Some m"
| "exn_message (RateLimitError m s r) = Some m"
| "exn_message e = None"

text \<open>Python's truth value of an object, as \<^verbatim>\<open>if x:\<close> tests it.\<close>

fun py_truthy :: "yval \<Rightarrow> bool" where
  "py_truthy YNull = False"
| "py_truthy (YBool b) = b"
| "py_truthy (YInt i) = (i \<noteq> 0)"
| "py_truthy (YStr s) = (s \<noteq> [])"
| "py_truthy (YList xs) = (xs \<noteq> [])"
| "py_truthy (YDict d) = (d \<noteq> [])"

text \<open>
  Python's \<^verbatim>\<open>==\<close> on these values. \<^verbatim>\<open>bool\<close> is a subclass of \<^verbatim>\<open>int\<close>, so
  \<^verbatim>\<open>True == 1\<close> and \<^verbatim>\<open>False == 0\<close>; lists compare element by element; dictionaries
  compare equal when they have the same number of keys and every key of the left one is
  bound in the right one to an equal value, whatever the insertion order.
\<close>

fun py_eq :: "yval \<Rightarrow> yval \<Rightarrow> bool"
  and py_eq_list :: "yval list \<Rightarrow> yval list \<Rightarrow> bool"
  and py_dict_sub :: "(string \<times> yval) list \<Rightarrow> (string \<times> yval) list \<Rightarrow> bool"
where
  "py_eq YNull b = (case b of YNull \<Rightarrow> True | _ \<Rightarrow> False)"
| "py_eq (YBool x) b =
     (case b of YBool y \<Rightarrow> x = y | YInt j \<Rightarrow> (if x then 1 else 0) = j | _ \<Rightarrow> False)"
| "py_eq (YInt i) b =
     (case b of YInt j \<Rightarrow> i = j | YBool y \<Rightarrow> i = (if y then 1 else 0) | _ \<Rightarrow> False)"
| "py_eq (YStr s) b = (case b of YStr t \<Rightarrow> s = t | _ \<Rightarrow> False)"
| "py_eq (YList xs) b = (case b of YList ys \<Rightarrow> py_eq_list xs ys | _ \<Rightarrow> False)"
| "py_eq (YDict d) b =
     (case b of YDict e \<Rightarrow> length d = length e \<and> py_dict_sub d e | _ \<Rightarrow> False)"
| "py_eq_list [] ys = (case ys of [] \<Rightarrow> True | _ \<Rightarrow> False)"
| "py_eq_list (x # xs) ys =
     (case ys of [] \<Rightarrow> False | y # ys' \<Rightarrow> py_eq x y \<and> py_eq_list xs ys')"
| "py_dict_sub [] e = True"
| "py_dict_sub ((k, v) # d) e =
     ((case map_of e k of None \<Rightarrow> False | Some w \<Rightarrow> py_eq v w) \<and> py_dict_sub d e)"

text \<open>
  \<^verbatim>\<open>d.get(k, default)\<close>: the value bound to \<open>k\<close>, the default when \<open>k\<close> is not a key;
  an \<^verbatim>\<open>AttributeError\<close> when \<open>d\<close> is not a dictionary. \<^verbatim>\<open>d.get(k)\<close> is
  \<open>dict_get d k YNull\<close>.
\<close>

definition dict_get :: "yval \<Rightarrow> string \<Rightarrow> yval \<Rightarrow> exn + yval" where
  "dict_get d k dflt =
     (case d of
        YDict m \<Rightarrow> Inr (case map_of m k of None \<Rightarrow> dflt | Some v \<Rightarrow> v)
      | _ \<Rightarrow> Inl AttributeError)"

section \<open>SDK client: error classification (client.py)\<close>

text \<open>
  \<^verbatim>\<open>BaseClient._handle_error\<close> never returns: the model returns the exception it raises.
\<close>

definition handle_error :: "int \<Rightarrow> yval \<Rightarrow> exn" where
  "handle_error status_code response_data =
     (case dict_get response_data ''error'' (YStr ''Unknown error'') of
        Inl e \<Rightarrow> e
      | Inr message \<Rightarrow>
          if status_code = 401 then AuthenticationError message
          else if status_code = 404 then
            NotFoundError message (Some status_code) (Some response_data)
          else if status_code = 429 then
            RateLimitError message (Some status_code) (Some response_data)
          else APIError message (Some status_code) (Some response_data))"

section \<open>SDK client: the asynchronous sites API (client.py)\<close>

text \<open>
  The transport is an external service: an operation is modelled from the point where the
  response has arrived. \<open>resp_json\<close> is what \<^verbatim>\<open>response.json()\<close> decodes the body to,
  \<open>None\<close> when the body is not JSON and the call raises.
\<close>

record response =
  resp_status_code :: int
  resp_json :: "yval option"

definition response_json :: "response \<Rightarrow> exn + yval" where
  "response_json response =
     (case resp_json response of None \<Rightarrow> Inl JSONDecodeError | Some v \<Rightarrow> Inr v)"

text \<open>
  The two lines every operation starts with,
  \<^verbatim>\<open>if response.status_code != expected: self.client._handle_error(response.status_code, response.json())\<close>.
  The argument \<^verbatim>\<open>response.json()\<close> is evaluated before the call.
\<close>

definition check_status :: "int \<Rightarrow> response \<Rightarrow> exn + unit" where
  "check_status expected response =
     (if resp_status_code response \<noteq> expected then
        (case response_json response of
           Inl e \<Rightarrow> Inl e
         | Inr body \<Rightarrow> Inl (handle_error (resp_status_code response) body))
      else Inr ())"

text \<open>\<^verbatim>\<open>data[k]\<close> with a string \<open>k\<close>.\<close>

definition py_getitem :: "yval \<Rightarrow> string \<Rightarrow> exn + yval" where
  "py_getitem data k =
     (case data of
        YDict m \<Rightarrow> (case map_of m k of None \<Rightarrow> Inl (KeyError k) | Some v \<Rightarrow> Inr v)
      | _ \<Rightarrow> Inl TypeError)"

text \<open>
  What \<^verbatim>\<open>for item in x\<close> runs over: the elements of a list, the keys of a dictionary,
  the characters of a string; other values are not iterable.
\<close>

fun py_iter :: "yval \<Rightarrow> exn + yval list" where
  "py_iter (YList xs) = Inr xs"
| "py_iter (YDict d) = Inr (map (\<lambda>kv. YStr (fst kv)) d)"
| "py_iter (YStr s) = Inr (map (\<lambda>c. YStr [c]) s)"
| "py_iter v = Inl TypeError"

text \<open>
  \<^verbatim>\<open>Site(**item)\<close>. The pydantic model validates and converts its keyword arguments; that
  is the library's work, so the constructor \<open>site\<close> is a parameter. Unpacking with
  \<^verbatim>\<open>**\<close> needs a mapping.
\<close>

definition construct :: "((string \<times> yval) list \<Rightarrow> exn + 'a) \<Rightarrow> yval \<Rightarrow> exn + 'a" where
  "construct site item = (case item of YDict kw \<Rightarrow> site kw | _ \<Rightarrow> Inl TypeError)"

text \<open>A list comprehension \<^verbatim>\<open>[f(x) for x in xs]\<close>: the first exception ends it.\<close>

fun list_comprehension :: "('a \<Rightarrow> exn + 'b) \<Rightarrow> 'a list \<Rightarrow> exn + 'b list" where
  "list_comprehension f [] = Inr []"
| "list_comprehension f (x # xs) =
     (case f x of
        Inl e \<Rightarrow> Inl e
      | Inr y \<Rightarrow> (case list_comprehension f xs of Inl e \<Rightarrow> Inl e | Inr ys \<Rightarrow> Inr (y # ys)))"

text \<open>\<^verbatim>\<open>AsyncSitesAPI.list\<close>, \<^verbatim>\<open>get\<close>, \<^verbatim>\<open>create\<close> and \<^verbatim>\<open>delete\<close>.\<close>

definition sites_list ::
  "((string \<times> yval) list \<Rightarrow> exn + 'a) \<Rightarrow> response \<Rightarrow> exn + 'a list" where
  "sites_list site response =
     (case check_status 200 response of
        Inl e \<Rightarrow> Inl e
      | Inr _ \<Rightarrow>
          (case response_json response of
             Inl e \<Rightarrow> Inl e
           | Inr data \<Rightarrow>
               (case py_getitem data ''sites'' of
                  Inl e \<Rightarrow> Inl e
                | Inr items \<Rightarrow>
                    (case py_iter items of
                       Inl e \<Rightarrow> Inl e
                     | Inr xs \<Rightarrow> list_comprehension (construct site) xs))))"

definition sites_get ::
  "((string \<times> yval) list \<Rightarrow> exn + 'a) \<Rightarrow> response \<Rightarrow> exn + 'a" where
  "sites_get site response =
     (case check_status 200 response of
        Inl e \<Rightarrow> Inl e
      | Inr _ \<Rightarrow>
          (case response_json response of Inl e \<Rightarrow> Inl e | Inr data \<Rightarrow> construct site data))"

definition sites_create ::
  "((string \<times> yval) list \<Rightarrow> exn + 'a) \<Rightarrow> response \<Rightarrow> exn + 'a" where
  "sites_create site response =
     (case check_status 201 response of
        Inl e \<Rightarrow> Inl e
      | Inr _ \<Rightarrow>
          (case response_json response of Inl e \<Rightarrow> Inl e | Inr data \<Rightarrow> construct site data))"

definition sites_delete :: "response \<Rightarrow> exn + unit" where
  "sites_delete response = check_status 204 response"

section \<open>Rule modules (firewall_rule.py, nat_rule.py)\<close>

subsection \<open>Parameters\<close>

text \<open>
  \<^verbatim>\<open>module.params\<close> after the framework has checked it against \<^verbatim>\<open>argument_spec\<close>:
  required parameters and those with a default hold a value, the others hold \<^verbatim>\<open>None\<close>
  when the task does not set them. \<^verbatim>\<open>state\<close> is one of its two choices.
\<close>

datatype rule_state = Present | Absent

record fw_params =
  fw_name :: string
  fw_description :: "string option"
  fw_action :: string
  fw_interface :: "string option"
  fw_direction :: "string option"
  fw_protocol :: "string option"
  fw_source_address :: "string option"
  fw_source_ports :: "int list option"
  fw_dest_address :: "string option"
  fw_dest_ports :: "int list option"
  fw_log :: bool
  fw_enabled :: bool
  fw_state :: rule_state
  fw_config_path :: string

record nat_params =
  nat_name :: string
  nat_description :: "string option"
  nat_nat_type :: string
  nat_interface :: string
  nat_source_address :: "string option"
  nat_dest_address :: "string option"
  nat_translation_address :: "string option"
  nat_translation_port :: "int option"
  nat_protocol :: "string option"
  nat_dest_port :: "int option"
  nat_enabled :: bool
  nat_state :: rule_state
  nat_config_path :: string

text \<open>The Python value of an optional parameter.\<close>

definition opt_str :: "string option \<Rightarrow> yval" where
  "opt_str x = (case x of None \<Rightarrow> YNull | Some s \<Rightarrow> YStr s)"

definition opt_int :: "int option \<Rightarrow> yval" where
  "opt_int x = (case x of None \<Rightarrow> YNull | Some i \<Rightarrow> YInt i)"

definition opt_int_list :: "int list option \<Rightarrow> yval" where
  "opt_int_list x = (case x of None \<Rightarrow> YNull | Some xs \<Rightarrow> YList (map YInt xs))"

subsection \<open>The desired document\<close>

text \<open>
  \<^verbatim>\<open>if params.get(p): target[k] = params[p]\<close>, where \<open>v\<close> is the value of parameter
  \<open>p\<close> and \<open>target\<close> the dictionary assigned to.
\<close>

definition set_if_truthy :: "string \<Rightarrow> yval \<Rightarrow> (string \<times> yval) list \<Rightarrow> (string \<times> yval) list" where
  "set_if_truthy k v target = (if py_truthy v then AList.update k v target else target)"

text \<open>
  \<^verbatim>\<open>generate_config\<close> of firewall\_rule.py. The source assigns into
  \<^verbatim>\<open>config['metadata']\<close> and \<^verbatim>\<open>config['spec']\<close> in place; here the two inner
  dictionaries are threaded through the same assignments, in the same order, and put into
  \<open>config\<close> at the end.
\<close>

definition generate_config_fw :: "fw_params \<Rightarrow> yval" where
  "generate_config_fw params =
     (let metadata = [(''name'', YStr (fw_name params))];
          spec = [(''action'', YStr (fw_action params)),
                  (''log'', YBool (fw_log params)),
                  (''enabled'', YBool (fw_enabled params))];
          metadata = set_if_truthy ''description'' (opt_str (fw_description params)) metadata;
          spec = set_if_truthy ''interface'' (opt_str (fw_interface params)) spec;
          spec = set_if_truthy ''direction'' (opt_str (fw_direction params)) spec;
          spec = set_if_truthy ''protocol'' (opt_str (fw_protocol params)) spec;
          source = [];
          source = set_if_truthy ''address'' (opt_str (fw_source_address params)) source;
          source = set_if_truthy ''ports'' (opt_int_list (fw_source_ports params)) source;
          spec = (if py_truthy (YDict source)
                  then AList.update ''source'' (YDict source) spec else spec);
          dest = [];
          dest = set_if_truthy ''address'' (opt_str (fw_dest_address params)) dest;
          dest = set_if_truthy ''ports'' (opt_int_list (fw_dest_ports params)) dest;
          spec = (if py_truthy (YDict dest)
                  then AList.update ''destination'' (YDict dest) spec else spec)
      in YDict [(''apiVersion'', YStr ''patronus.firewall/v1''),
                (''kind'', YStr ''FirewallRule''),
                (''metadata'', YDict metadata),
                (''spec'', YDict spec)])"

text \<open>\<^verbatim>\<open>generate_config\<close> of nat\_rule.py, in the same way.\<close>

definition generate_config_nat :: "nat_params \<Rightarrow> yval" where
  "generate_config_nat params =
     (let metadata = [(''name'', YStr (nat_name params))];
          spec = [(''nat_type'', YStr (nat_nat_type params)),
                  (''interface'', YStr (nat_interface params)),
                  (''enabled'', YBool (nat_enabled params))];
          metadata = set_if_truthy ''description'' (opt_str (nat_description params)) metadata;
          spec = set_if_truthy ''source_address'' (opt_str (nat_source_address params)) spec;
          spec = set_if_truthy ''dest_address'' (opt_str (nat_dest_address params)) spec;
          spec = set_if_truthy ''translation_address''
                   (opt_str (nat_translation_address params)) spec;
          spec = set_if_truthy ''translation_port''
                   (opt_int (nat_translation_port params)) spec;
          spec = set_if_truthy ''protocol'' (opt_str (nat_protocol params)) spec;
          spec = set_if_truthy ''dest_port'' (opt_int (nat_dest_port params)) spec
      in YDict [(''apiVersion'', YStr ''patronus.firewall/v1''),
                (''kind'', YStr ''NatRule''),
                (''metadata'', YDict metadata),
                (''spec'', YDict spec)])"

subsection \<open>Files\<close>

text \<open>
  \<^verbatim>\<open>os.path.join(a, b)\<close> on a POSIX system: an absolute \<open>b\<close> replaces \<open>a\<close>; otherwise
  the two are joined with one separator, none when \<open>a\<close> is empty or ends with one.
\<close>

definition os_path_join :: "string \<Rightarrow> string \<Rightarrow> string" where
  "os_path_join a b =
     (if take 1 b = ''/'' then b
      else if a = [] \<or> last a = CHR ''/'' then a @ b
      else a @ ''/'' @ b)"

definition config_file_path_fw :: "string \<Rightarrow> string \<Rightarrow> string" where
  "config_file_path_fw config_path name =
     os_path_join config_path (''FirewallRule-'' @ name @ ''.yaml'')"

definition config_file_path_nat :: "string \<Rightarrow> string \<Rightarrow> string" where
  "config_file_path_nat config_path name =
     os_path_join config_path (''NatRule-'' @ name @ ''.yaml'')"

text \<open>
  \<^verbatim>\<open>os.path.dirname(p)\<close> on a POSIX system: \<open>p\<close> up to and including its last
  separator, without the trailing separators unless nothing else is left; empty when \<open>p\<close>
  has no separator.
\<close>

definition os_path_dirname :: "string \<Rightarrow> string" where
  "os_path_dirname p =
     (let head = rev (dropWhile (\<lambda>c. c \<noteq> CHR ''/'') (rev p))
      in if head \<noteq> [] \<and> head \<noteq> replicate (length head) (CHR ''/'')
         then rev (dropWhile (\<lambda>c. c = CHR ''/'') (rev head))
         else head)"

text \<open>
  The YAML library is an external service: \<open>yaml_dump\<close> turns a document into the contents
  of a file, \<open>yaml_safe_load\<close> parses the contents of a file or raises. The file system is a
  map from paths to the contents of regular files. Directories are not in the map:
  \<^verbatim>\<open>os.makedirs(name, exist_ok=True)\<close> finds or creates the directory \<open>name\<close>, and raises
  \<^verbatim>\<open>FileNotFoundError\<close> when \<open>name\<close> is the empty string, which names no directory.
  Reading an existing file, writing a file in a directory that is there and removing a file
  succeed (permissions and full disks are outside the model).
\<close>

definition os_makedirs :: "string \<Rightarrow> exn + unit" where
  "os_makedirs name = (if name = [] then Inl FileNotFoundError else Inr ())"

record 'f yaml_lib =
  yaml_dump :: "yval \<Rightarrow> 'f"
  yaml_safe_load :: "'f \<Rightarrow> exn + yval"

type_synonym 'f file_system = "string \<Rightarrow> 'f option"

text \<open>
  \<^verbatim>\<open>read_existing_config\<close>, \<^verbatim>\<open>write_config\<close>, \<^verbatim>\<open>delete_config\<close> and
  \<^verbatim>\<open>configs_equal\<close> are the same text in both modules. Python's \<^verbatim>\<open>None\<close> is \<open>YNull\<close>:
  an empty file, which \<^verbatim>\<open>yaml.safe_load\<close> reads as \<^verbatim>\<open>None\<close>, is read as no file is.
\<close>

definition read_existing_config :: "'f yaml_lib \<Rightarrow> 'f file_system \<Rightarrow> string \<Rightarrow> yval" where
  "read_existing_config yaml fs filepath =
     (case fs filepath of
        None \<Rightarrow> YNull
      | Some contents \<Rightarrow>
          (case yaml_safe_load yaml contents of Inl e \<Rightarrow> YNull | Inr config \<Rightarrow> config))"

definition write_config ::
  "'f yaml_lib \<Rightarrow> 'f file_system \<Rightarrow> string \<Rightarrow> yval \<Rightarrow> exn + 'f file_system" where
  "write_config yaml fs filepath config =
     (case os_makedirs (os_path_dirname filepath) of
        Inl e \<Rightarrow> Inl e
      | Inr _ \<Rightarrow> Inr (fs(filepath \<mapsto> yaml_dump yaml config)))"

definition delete_config :: "'f file_system \<Rightarrow> string \<Rightarrow> 'f file_system" where
  "delete_config fs filepath = (if fs filepath \<noteq> None then fs(filepath := None) else fs)"

definition configs_equal :: "yval \<Rightarrow> yval \<Rightarrow> exn + bool" where
  "configs_equal config1 config2 =
     (if config1 = YNull \<or> config2 = YNull then Inr (py_eq config1 config2)
      else
        case dict_get config1 ''metadata'' (YDict []) of Inl e \<Rightarrow> Inl e | Inr metadata1 \<Rightarrow>
        case dict_get metadata1 ''name'' YNull of Inl e \<Rightarrow> Inl e | Inr name1 \<Rightarrow>
        case dict_get config2 ''metadata'' (YDict []) of Inl e \<Rightarrow> Inl e | Inr metadata2 \<Rightarrow>
        case dict_get metadata2 ''name'' YNull of Inl e \<Rightarrow> Inl e | Inr name2 \<Rightarrow>
        if py_eq name1 name2 then
          case dict_get config1 ''spec'' YNull of Inl e \<Rightarrow> Inl e | Inr spec1 \<Rightarrow>
          case dict_get config2 ''spec'' YNull of Inl e \<Rightarrow> Inl e | Inr spec2 \<Rightarrow>
          Inr (py_eq spec1 spec2)
        else Inr False)"

subsection \<open>The modules\<close>

text \<open>
  What \<^verbatim>\<open>module.exit_json(**result)\<close> reports; \<open>rule\<close> is set when the state is
  \<^verbatim>\<open>present\<close>.
\<close>

record result =
  changed :: bool
  message :: string
  rule :: "yval option"

text \<open>
  \<^verbatim>\<open>main\<close> of firewall\_rule.py: the outcome (the reported result, or the exception that
  ends the run) and the file system it leaves. An exception of \<^verbatim>\<open>write_config\<close> ends the
  run before \<^verbatim>\<open>exit_json\<close>, so nothing is reported then.
\<close>

definition main_fw ::
  "'f yaml_lib \<Rightarrow> bool \<Rightarrow> fw_params \<Rightarrow> 'f file_system \<Rightarrow> (exn + result) \<times> 'f file_system" where
  "main_fw yaml check_mode params fs =
     (let config_path = fw_config_path params;
          name = fw_name params;
          state = fw_state params;
          filepath = config_file_path_fw config_path name;
          existing_config = read_existing_config yaml fs filepath
      in case state of
           Present \<Rightarrow>
             (let desired_config = generate_config_fw params
              in case configs_equal existing_config desired_config of
                   Inl e \<Rightarrow> (Inl e, fs)
                 | Inr True \<Rightarrow>
                     (Inr \<lparr>changed = False,
                           message = ''Firewall rule '' @ [CHR 0x27] @ name @ [CHR 0x27]
                                       @ '' already exists with desired configuration'',
                           rule = Some desired_config\<rparr>,
                      fs)
                 | Inr False \<Rightarrow>
                     (let result =
                            \<lparr>changed = True,
                             message = (if existing_config = YNull
                                        then ''Created firewall rule '' @ [CHR 0x27] @ name @ [CHR 0x27]
                                        else ''Updated firewall rule '' @ [CHR 0x27] @ name @ [CHR 0x27]),
                             rule = Some desired_config\<rparr>
                      in if \<not> check_mode then
                           (case write_config yaml fs filepath desired_config of
                              Inl e \<Rightarrow> (Inl e, fs)
                            | Inr fs' \<Rightarrow> (Inr result, fs'))
                         else (Inr result, fs)))
         | Absent \<Rightarrow>
             if existing_config \<noteq> YNull then
               (Inr \<lparr>changed = True,
                     message = ''Deleted firewall rule '' @ [CHR 0x27] @ name @ [CHR 0x27],
                     rule = None\<rparr>,
                if \<not> check_mode then delete_config fs filepath else fs)
             else
               (Inr \<lparr>changed = False,
                     message = ''Firewall rule '' @ [CHR 0x27] @ name @ [CHR 0x27]
                                 @ '' already absent'',
                     rule = None\<rparr>,
                fs))"

text \<open>\<^verbatim>\<open>main\<close> of nat\_rule.py.\<close>

definition main_nat ::
  "'f yaml_lib \<Rightarrow> bool \<Rightarrow> nat_params \<Rightarrow> 'f file_system \<Rightarrow> (exn + result) \<times> 'f file_system" where
  "main_nat yaml check_mode params fs =
     (let config_path = nat_config_path params;
          name = nat_name params;
          state = nat_state params;
          filepath = config_file_path_nat config_path name;
          existing_config = read_existing_config yaml fs filepath
      in case state of
           Present \<Rightarrow>
             (let desired_config = generate_config_nat params
              in case configs_equal existing_config desired_config of
                   Inl e \<Rightarrow> (Inl e, fs)
                 | Inr True \<Rightarrow>
                     (Inr \<lparr>changed = False,
                           message = ''NAT rule '' @ [CHR 0x27] @ name @ [CHR 0x27]
                                       @ '' already exists with desired configuration'',
                           rule = Some desired_config\<rparr>,
                      fs)
                 | Inr False \<Rightarrow>
                     (let result =
                            \<lparr>changed = True,
                             message = (if existing_config = YNull
                                        then ''Created NAT rule '' @ [CHR 0x27] @ name @ [CHR 0x27]
                                        else ''Updated NAT rule '' @ [CHR 0x27] @ name @ [CHR 0x27]),
                             rule = Some desired_config\<rparr>
                      in if \<not> check_mode then
                           (case write_config yaml fs filepath desired_config of
                              Inl e \<Rightarrow> (Inl e, fs)
                            | Inr fs' \<Rightarrow> (Inr result, fs'))
                         else (Inr result, fs)))
         | Absent \<Rightarrow>
             if existing_config \<noteq> YNull then
               (Inr \<lparr>changed = True,
                     message = ''Deleted NAT rule '' @ [CHR 0x27] @ name @ [CHR 0x27],
                     rule = None\<rparr>,
                if \<not> check_mode then delete_config fs filepath else fs)
             else
               (Inr \<lparr>changed = False,
                     message = ''NAT rule '' @ [CHR 0x27] @ name @ [CHR 0x27] @ '' already absent'',
                     rule = None\<rparr>,
                fs))"

section \<open>Auxiliary definitions for the proofs\<close>

text \<open>
  A Python dictionary binds a key once. The association lists that stand for dictionaries
  in a value have that property when their keys are distinct, at every depth.
\<close>

fun distinct_keys :: "yval \<Rightarrow> bool" where
  "distinct_keys (YList xs) = (\<forall>x\<in>set xs. distinct_keys x)"
| "distinct_keys (YDict d) = (distinct (map fst d) \<and> (\<forall>kv\<in>set d. distinct_keys (snd kv)))"
| "distinct_keys v = True"

text \<open>
  Concrete inputs for evaluating the model. \<open>stub_yaml\<close> is a YAML library whose files
  are documents kept as they are, with one more file content that does not parse.
  \<open>scenario_A\<close> is the first example of firewall\_rule.py reduced to the parameters of
  the specification's scenario A; \<open>dmz_dnat\<close> and \<open>web_server_nat\<close> are examples of
  nat\_rule.py; \<open>empty_and_zero\<close> sets a string parameter to the empty string and a
  port to zero.
\<close>

definition stub_yaml :: "yval option yaml_lib" where
  "stub_yaml =
     \<lparr>yaml_dump = Some,
      yaml_safe_load =
        (\<lambda>contents. case contents of None \<Rightarrow> Inl YAMLError | Some v \<Rightarrow> Inr v)\<rparr>"

definition scenario_A :: fw_params where
  "scenario_A =
     \<lparr>fw_name = ''allow-ssh'', fw_description = None, fw_action = ''allow'',
      fw_interface = None, fw_direction = None, fw_protocol = Some ''tcp'',
      fw_source_address = None, fw_source_ports = None, fw_dest_address = None,
      fw_dest_ports = Some [22], fw_log = False, fw_enabled = True, fw_state = Present,
      fw_config_path = ''/etc/patronus/config''\<rparr>"

definition dmz_dnat :: nat_params where
  "dmz_dnat =
     \<lparr>nat_name = ''dmz-dnat'', nat_description = Some ''Destination NAT to DMZ'',
      nat_nat_type = ''destination'', nat_interface = ''wan0'', nat_source_address = None,
      nat_dest_address = Some ''203.0.113.50'',
      nat_translation_address = Some ''192.168.100.10'', nat_translation_port = None,
      nat_protocol = None, nat_dest_port = None, nat_enabled = True, nat_state = Present,
      nat_config_path = ''/etc/patronus/config''\<rparr>"

definition web_server_nat :: nat_params where
  "web_server_nat =
     \<lparr>nat_name = ''web-server-nat'',
      nat_description = Some ''Forward HTTP/HTTPS to DMZ web server'',
      nat_nat_type = ''port_forward'', nat_interface = ''wan0'', nat_source_address = None,
      nat_dest_address = None, nat_translation_address = Some ''192.168.100.10'',
      nat_translation_port = Some 80, nat_protocol = Some ''tcp'', nat_dest_port = Some 80,
      nat_enabled = True, nat_state = Present, nat_config_path = ''/etc/patronus/config''\<rparr>"

definition empty_and_zero :: nat_params where
  "empty_and_zero =
     \<lparr>nat_name = ''web-server-nat'', nat_description = None,
      nat_nat_type = ''port_forward'', nat_interface = ''wan0'', nat_source_address = Some '''',
      nat_dest_address = None, nat_translation_address = None,
      nat_translation_port = Some 0, nat_protocol = None, nat_dest_port = None,
      nat_enabled = True, nat_state = Present, nat_config_path = ''/etc/patronus/config''\<rparr>"

text \<open>A stand-in for the pydantic constructor of \<^verbatim>\<open>Site\<close>: it keeps the \<^verbatim>\<open>id\<close>.\<close>

definition site_stub :: "(string \<times> yval) list \<Rightarrow> exn + string" where
  "site_stub kw =
     (case map_of kw ''id'' of Some (YStr s) \<Rightarrow> Inr s | _ \<Rightarrow> Inl PydanticValidationError)"

section \<open>Equality of values and the shape of the desired document\<close>




lemma distinct_keys_update:
  assumes "distinct_keys (YDict d)" and "distinct_keys v"
  shows "distinct_keys (YDict (AList.update k v d))"
proof -
  have "set (AList.update k v d) \<subseteq> insert (k, v) (set d)"
    by (induction d) auto
  with assms show ?thesis
    by (auto simp: distinct_update)
qed

lemma distinct_keys_opt [simp]:
  "distinct_keys (opt_str a)" "distinct_keys (opt_int b)" "distinct_keys (opt_int_list c)"
  by (auto simp: opt_str_def opt_int_def opt_int_list_def split: option.splits)

lemma distinct_keys_set_if_truthy:
  "distinct_keys (YDict d) \<Longrightarrow> distinct_keys v \<Longrightarrow> distinct_keys (YDict (set_if_truthy k v d))"
  by (cases "py_truthy v") (simp_all only: set_if_truthy_def distinct_keys_update if_True if_False)

lemma map_of_set_if_truthy:
  "map_of (set_if_truthy k v d) k' =
     (if k' = k \<and> py_truthy v then Some v else map_of d k')"
  by (simp add: set_if_truthy_def update_conv')

lemma distinct_keys_if_update:
  "distinct_keys (YDict d) \<Longrightarrow> distinct_keys v \<Longrightarrow>
   distinct_keys (YDict (if c then AList.update k v d else d))"
  by (cases c) (simp_all only: distinct_keys_update if_True if_False)

lemma generate_config_fw_shape:
  "\<exists>md sp. generate_config_fw p =
       YDict [(''apiVersion'', YStr ''patronus.firewall/v1''), (''kind'', YStr ''FirewallRule''),
              (''metadata'', YDict md), (''spec'', YDict sp)]
     \<and> map_of md ''name'' = Some (YStr (fw_name p)) \<and> distinct_keys (YDict sp)"
  unfolding generate_config_fw_def Let_def
  apply (intro exI conjI)
    apply (rule refl)
   apply (simp add: map_of_set_if_truthy)
  apply (intro distinct_keys_if_update distinct_keys_set_if_truthy distinct_keys_opt)
  apply simp_all
  done

lemma generate_config_nat_shape:
  "\<exists>md sp. generate_config_nat p =
       YDict [(''apiVersion'', YStr ''patronus.firewall/v1''), (''kind'', YStr ''NatRule''),
              (''metadata'', YDict md), (''spec'', YDict sp)]
     \<and> map_of md ''name'' = Some (YStr (nat_name p)) \<and> distinct_keys (YDict sp)"
  unfolding generate_config_nat_def Let_def
  apply (intro exI conjI)
    apply (rule refl)
   apply (simp add: map_of_set_if_truthy)
  apply (intro distinct_keys_set_if_truthy distinct_keys_opt)
  apply simp
  done

section \<open>The comparison of documents and the two modules, case by case\<close>

lemma dict_get_YDict:
  "dict_get (YDict m) k dflt = Inr (case map_of m k of None \<Rightarrow> dflt | Some v \<Rightarrow> v)"
  by (simp add: dict_get_def)

lemma configs_equal_YNull: "configs_equal YNull (YDict d) = Inr False"
  by (simp add: configs_equal_def)

lemma configs_equal_dicts:
  assumes "map_of e ''metadata'' = Some (YDict m)" and "map_of m ''name'' = Some n"
      and "map_of e ''spec'' = Some s"
      and "map_of d ''metadata'' = Some (YDict m')" and "map_of m' ''name'' = Some n'"
      and "map_of d ''spec'' = Some s'"
  shows "configs_equal (YDict e) (YDict d) = Inr (py_eq n n' \<and> py_eq s s')"
  using assms by (simp add: configs_equal_def dict_get_YDict)

lemma desired_fw_parts:
  "\<exists>d m sp. generate_config_fw p = YDict d \<and> map_of d ''metadata'' = Some (YDict m) \<and>
     map_of m ''name'' = Some (YStr (fw_name p)) \<and> map_of d ''spec'' = Some (YDict sp) \<and>
     distinct_keys (YDict sp)"
proof -
  from generate_config_fw_shape [of p] obtain md sp where
    g: "generate_config_fw p =
       YDict [(''apiVersion'', YStr ''patronus.firewall/v1''), (''kind'', YStr ''FirewallRule''),
              (''metadata'', YDict md), (''spec'', YDict sp)]"
    and n: "map_of md ''name'' = Some (YStr (fw_name p))" and k: "distinct_keys (YDict sp)"
    by blast
  show ?thesis
    apply (rule exI [of _ "[(''apiVersion'', YStr ''patronus.firewall/v1''), (''kind'', YStr ''FirewallRule''),
              (''metadata'', YDict md), (''spec'', YDict sp)]"])
    apply (rule exI [of _ md], rule exI [of _ sp])
    using g n k apply simp
    done
qed

lemma desired_nat_parts:
  "\<exists>d m sp. generate_config_nat p = YDict d \<and> map_of d ''metadata'' = Some (YDict m) \<and>
     map_of m ''name'' = Some (YStr (nat_name p)) \<and> map_of d ''spec'' = Some (YDict sp) \<and>
     distinct_keys (YDict sp)"
proof -
  from generate_config_nat_shape [of p] obtain md sp where
    g: "generate_config_nat p =
       YDict [(''apiVersion'', YStr ''patronus.firewall/v1''), (''kind'', YStr ''NatRule''),
              (''metadata'', YDict md), (''spec'', YDict sp)]"
    and n: "map_of md ''name'' = Some (YStr (nat_name p))" and k: "distinct_keys (YDict sp)"
    by blast
  show ?thesis
    apply (rule exI [of _ "[(''apiVersion'', YStr ''patronus.firewall/v1''), (''kind'', YStr ''NatRule''),
              (''metadata'', YDict md), (''spec'', YDict sp)]"])
    apply (rule exI [of _ md], rule exI [of _ sp])
    using g n k apply simp
    done
qed



lemma main_fw_present:
  assumes "fw_state p = Present"
  shows "main_fw yaml check_mode p fs =
    (case configs_equal
            (read_existing_config yaml fs (config_file_path_fw (fw_config_path p) (fw_name p)))
            (generate_config_fw p) of
       Inl e \<Rightarrow> (Inl e, fs)
     | Inr True \<Rightarrow>
         (Inr \<lparr>changed = False,
               message = ''Firewall rule '' @ [CHR 0x27] @ fw_name p @ [CHR 0x27]
                           @ '' already exists with desired configuration'',
               rule = Some (generate_config_fw p)\<rparr>, fs)
     | Inr False \<Rightarrow>
         (if check_mode then
            (Inr \<lparr>changed = True,
                  message =
                    (if read_existing_config yaml fs
                          (config_file_path_fw (fw_config_path p) (fw_name p)) = YNull
                     then ''Created firewall rule '' @ [CHR 0x27] @ fw_name p @ [CHR 0x27]
                     else ''Updated firewall rule '' @ [CHR 0x27] @ fw_name p @ [CHR 0x27]),
                  rule = Some (generate_config_fw p)\<rparr>, fs)
          else
            (case os_makedirs (os_path_dirname (config_file_path_fw (fw_config_path p) (fw_name p))) of
               Inl e \<Rightarrow> (Inl e, fs)
             | Inr u \<Rightarrow>
                 (Inr \<lparr>changed = True,
                  message =
                    (if read_existing_config yaml fs
                          (config_file_path_fw (fw_config_path p) (fw_name p)) = YNull
                     then ''Created firewall rule '' @ [CHR 0x27] @ fw_name p @ [CHR 0x27]
                     else ''Updated firewall rule '' @ [CHR 0x27] @ fw_name p @ [CHR 0x27]),
                  rule = Some (generate_config_fw p)\<rparr>,
                  fs(config_file_path_fw (fw_config_path p) (fw_name p)
                       \<mapsto> yaml_dump yaml (generate_config_fw p))))))"
  using assms
  by (simp add: main_fw_def Let_def write_config_def split: sum.splits bool.splits)


lemma main_nat_present:
  assumes "nat_state p = Present"
  shows "main_nat yaml check_mode p fs =
    (case configs_equal
            (read_existing_config yaml fs (config_file_path_nat (nat_config_path p) (nat_name p)))
            (generate_config_nat p) of
       Inl e \<Rightarrow> (Inl e, fs)
     | Inr True \<Rightarrow>
         (Inr \<lparr>changed = False,
               message = ''NAT rule '' @ [CHR 0x27] @ nat_name p @ [CHR 0x27]
                           @ '' already exists with desired configuration'',
               rule = Some (generate_config_nat p)\<rparr>, fs)
     | Inr False \<Rightarrow>
         (if check_mode then
            (Inr \<lparr>changed = True,
                  message =
                    (if read_existing_config yaml fs
                          (config_file_path_nat (nat_config_path p) (nat_name p)) = YNull
                     then ''Created NAT rule '' @ [CHR 0x27] @ nat_name p @ [CHR 0x27]
                     else ''Updated NAT rule '' @ [CHR 0x27] @ nat_name p @ [CHR 0x27]),
                  rule = Some (generate_config_nat p)\<rparr>, fs)
          else
            (case os_makedirs (os_path_dirname (config_file_path_nat (nat_config_path p) (nat_name p))) of
               Inl e \<Rightarrow> (Inl e, fs)
             | Inr u \<Rightarrow>
                 (Inr \<lparr>changed = True,
                  message =
                    (if read_existing_config yaml fs
                          (config_file_path_nat (nat_config_path p) (nat_name p)) = YNull
                     then ''Created NAT rule '' @ [CHR 0x27] @ nat_name p @ [CHR 0x27]
                     else ''Updated NAT rule '' @ [CHR 0x27] @ nat_name p @ [CHR 0x27]),
                  rule = Some (generate_config_nat p)\<rparr>,
                  fs(config_file_path_nat (nat_config_path p) (nat_name p)
                       \<mapsto> yaml_dump yaml (generate_config_nat p))))))"
  using assms
  by (simp add: main_nat_def Let_def write_config_def split: sum.splits bool.splits)

lemma main_fw_absent:
  assumes "fw_state p = Absent"
  shows "main_fw yaml check_mode p fs =
    (if read_existing_config yaml fs (config_file_path_fw (fw_config_path p) (fw_name p)) \<noteq> YNull
     then (Inr \<lparr>changed = True,
                 message = ''Deleted firewall rule '' @ [CHR 0x27] @ fw_name p @ [CHR 0x27],
                 rule = None\<rparr>,
           if check_mode then fs
           else delete_config fs (config_file_path_fw (fw_config_path p) (fw_name p)))
     else (Inr \<lparr>changed = False,
                 message = ''Firewall rule '' @ [CHR 0x27] @ fw_name p @ [CHR 0x27]
                             @ '' already absent'',
                 rule = None\<rparr>, fs))"
  using assms by (simp add: main_fw_def Let_def)

lemma main_nat_absent:
  assumes "nat_state p = Absent"
  shows "main_nat yaml check_mode p fs =
    (if read_existing_config yaml fs (config_file_path_nat (nat_config_path p) (nat_name p)) \<noteq> YNull
     then (Inr \<lparr>changed = True,
                 message = ''Deleted NAT rule '' @ [CHR 0x27] @ nat_name p @ [CHR 0x27],
                 rule = None\<rparr>,
           if check_mode then fs
           else delete_config fs (config_file_path_nat (nat_config_path p) (nat_name p)))
     else (Inr \<lparr>changed = False,
                 message = ''NAT rule '' @ [CHR 0x27] @ nat_name p @ [CHR 0x27]
                             @ '' already absent'',
                 rule = None\<rparr>, fs))"
  using assms by (simp add: main_nat_def Let_def)




section \<open>Idempotence of the rule modules\<close>

lemmas eval_defs = main_fw_def main_nat_def Let_def scenario_A_def dmz_dnat_def stub_yaml_def
  read_existing_config_def configs_equal_def generate_config_fw_def generate_config_nat_def
  set_if_truthy_def opt_str_def opt_int_def opt_int_list_def config_file_path_fw_def
  config_file_path_nat_def os_path_join_def dict_get_def write_config_def delete_config_def
  os_makedirs_def os_path_dirname_def
  web_server_nat_def empty_and_zero_def

lemma main_fw_scenario_A:
  "main_fw stub_yaml False scenario_A Map.empty =
     (Inr \<lparr>changed = True,
            message = ''Created firewall rule '' @ [CHR 0x27] @ ''allow-ssh'' @ [CHR 0x27],
            rule = Some (generate_config_fw scenario_A)\<rparr>,
      [''/etc/patronus/config/FirewallRule-allow-ssh.yaml''
         \<mapsto> Some (generate_config_fw scenario_A)])"
  by (simp add: eval_defs)

lemma main_nat_dmz_dnat:
  "main_nat stub_yaml False dmz_dnat Map.empty =
     (Inr \<lparr>changed = True,
            message = ''Created NAT rule '' @ [CHR 0x27] @ ''dmz-dnat'' @ [CHR 0x27],
            rule = Some (generate_config_nat dmz_dnat)\<rparr>,
      [''/etc/patronus/config/NatRule-dmz-dnat.yaml''
         \<mapsto> Some (generate_config_nat dmz_dnat)])"
  by (simp add: eval_defs)



section \<open>What the comparison ignores\<close>

lemma main_fw_unchanged:
  assumes "fw_state p = Present"
      and "configs_equal
             (read_existing_config yaml fs (config_file_path_fw (fw_config_path p) (fw_name p)))
             (generate_config_fw p) = Inr True"
  shows "main_fw yaml check_mode p fs =
           (Inr \<lparr>changed = False,
                  message = ''Firewall rule '' @ [CHR 0x27] @ fw_name p @ [CHR 0x27]
                              @ '' already exists with desired configuration'',
                  rule = Some (generate_config_fw p)\<rparr>, fs)"
  using assms by (simp add: main_fw_present)

lemma main_nat_unchanged:
  assumes "nat_state p = Present"
      and "configs_equal
             (read_existing_config yaml fs (config_file_path_nat (nat_config_path p) (nat_name p)))
             (generate_config_nat p) = Inr True"
  shows "main_nat yaml check_mode p fs =
           (Inr \<lparr>changed = False,
                  message = ''NAT rule '' @ [CHR 0x27] @ nat_name p @ [CHR 0x27]
                              @ '' already exists with desired configuration'',
                  rule = Some (generate_config_nat p)\<rparr>, fs)"
  using assms by (simp add: main_nat_present)

lemma generate_config_fw_scenario_A:
  "generate_config_fw (scenario_A\<lparr>fw_description := x\<rparr>) =
     YDict [(''apiVersion'', YStr ''patronus.firewall/v1''), (''kind'', YStr ''FirewallRule''),
            (''metadata'',
             YDict (set_if_truthy ''description'' (opt_str x) [(''name'', YStr ''allow-ssh'')])),
            (''spec'',
             YDict [(''action'', YStr ''allow''), (''log'', YBool False),
                    (''enabled'', YBool True), (''protocol'', YStr ''tcp''),
                    (''destination'', YDict [(''ports'', YList [YInt 22])])])]"
  by (simp add: generate_config_fw_def scenario_A_def Let_def set_if_truthy_def opt_str_def
      opt_int_list_def)

lemma generate_config_nat_dmz_dnat:
  "generate_config_nat (dmz_dnat\<lparr>nat_description := x\<rparr>) =
     YDict [(''apiVersion'', YStr ''patronus.firewall/v1''), (''kind'', YStr ''NatRule''),
            (''metadata'',
             YDict (set_if_truthy ''description'' (opt_str x) [(''name'', YStr ''dmz-dnat'')])),
            (''spec'',
             YDict [(''nat_type'', YStr ''destination''), (''interface'', YStr ''wan0''),
                    (''enabled'', YBool True), (''dest_address'', YStr ''203.0.113.50''),
                    (''translation_address'', YStr ''192.168.100.10'')])]"
  by (simp add: generate_config_nat_def dmz_dnat_def Let_def set_if_truthy_def opt_str_def
      opt_int_def)

text \<open>
  C6. With \<^verbatim>\<open>state=present\<close>, when the file holds a document \<open>e\<close> and the desired
  document is \<open>d\<close>, both with a \<^verbatim>\<open>metadata\<close> mapping, equal \<^verbatim>\<open>metadata.name\<close> and
  equal \<^verbatim>\<open>spec\<close> (Python's \<^verbatim>\<open>==\<close>), then whatever else the two \<^verbatim>\<open>metadata\<close>
  mappings hold (a description, other fields), the module reports \<^verbatim>\<open>changed=false\<close>
  and leaves the file system as it is. This holds for both modules, in a real run and in a
  dry run.
\<close>

theorem description_not_compared:
  assumes "map_of e ''metadata'' = Some (YDict m)" and "map_of m ''name'' = Some n"
      and "map_of e ''spec'' = Some s"
      and "map_of d ''metadata'' = Some (YDict m')" and "map_of m' ''name'' = Some n'"
      and "map_of d ''spec'' = Some s'"
      and "py_eq n n'" and "py_eq s s'"
  shows
   "(fw_state p = Present \<and> generate_config_fw p = YDict d \<and>
     read_existing_config yaml fs (config_file_path_fw (fw_config_path p) (fw_name p)) = YDict e
     \<longrightarrow> main_fw yaml check_mode p fs =
           (Inr \<lparr>changed = False,
                  message = ''Firewall rule '' @ [CHR 0x27] @ fw_name p @ [CHR 0x27]
                              @ '' already exists with desired configuration'',
                  rule = Some (YDict d)\<rparr>, fs)) \<and>
    (nat_state q = Present \<and> generate_config_nat q = YDict d \<and>
     read_existing_config yaml gs (config_file_path_nat (nat_config_path q) (nat_name q)) = YDict e
     \<longrightarrow> main_nat yaml check_mode q gs =
           (Inr \<lparr>changed = False,
                  message = ''NAT rule '' @ [CHR 0x27] @ nat_name q @ [CHR 0x27]
                              @ '' already exists with desired configuration'',
                  rule = Some (YDict d)\<rparr>, gs))"
proof -
  have "configs_equal (YDict e) (YDict d) = Inr True"
    using assms by (simp add: configs_equal_dicts)
  then show ?thesis
    by (simp add: main_fw_unchanged main_nat_unchanged)
qed

theorem description_not_compared_witness:
  "main_fw stub_yaml False scenario_A
     [''/etc/patronus/config/FirewallRule-allow-ssh.yaml''
        \<mapsto> Some (generate_config_fw (scenario_A\<lparr>fw_description := Some ''SSH access''\<rparr>))]
   = (Inr \<lparr>changed = False,
            message = ''Firewall rule '' @ [CHR 0x27] @ ''allow-ssh'' @ [CHR 0x27]
                        @ '' already exists with desired configuration'',
            rule = Some (generate_config_fw scenario_A)\<rparr>,
      [''/etc/patronus/config/FirewallRule-allow-ssh.yaml''
        \<mapsto> Some (generate_config_fw (scenario_A\<lparr>fw_description := Some ''SSH access''\<rparr>))]) \<and>
   generate_config_fw (scenario_A\<lparr>fw_description := Some ''SSH access''\<rparr>)
     \<noteq> generate_config_fw scenario_A \<and>
   main_nat stub_yaml False dmz_dnat
     [''/etc/patronus/config/NatRule-dmz-dnat.yaml''
        \<mapsto> Some (generate_config_nat (dmz_dnat\<lparr>nat_description := None\<rparr>))]
   = (Inr \<lparr>changed = False,
            message = ''NAT rule '' @ [CHR 0x27] @ ''dmz-dnat'' @ [CHR 0x27]
                        @ '' already exists with desired configuration'',
            rule = Some (generate_config_nat dmz_dnat)\<rparr>,
      [''/etc/patronus/config/NatRule-dmz-dnat.yaml''
        \<mapsto> Some (generate_config_nat (dmz_dnat\<lparr>nat_description := None\<rparr>))]) \<and>
   generate_config_nat (dmz_dnat\<lparr>nat_description := None\<rparr>) \<noteq> generate_config_nat dmz_dnat"
proof -
  let ?fw_spec = "YDict [(''action'', YStr ''allow''), (''log'', YBool False),
                    (''enabled'', YBool True), (''protocol'', YStr ''tcp''),
                    (''destination'', YDict [(''ports'', YList [YInt 22])])]"
  let ?fw_m = "[(''name'', YStr ''allow-ssh''), (''description'', YStr ''SSH access'')]"
  let ?fw_m' = "[(''name'', YStr ''allow-ssh'')]"
  let ?fw_e = "[(''apiVersion'', YStr ''patronus.firewall/v1''), (''kind'', YStr ''FirewallRule''),
                (''metadata'', YDict ?fw_m), (''spec'', ?fw_spec)]"
  let ?fw_d = "[(''apiVersion'', YStr ''patronus.firewall/v1''), (''kind'', YStr ''FirewallRule''),
                (''metadata'', YDict ?fw_m'), (''spec'', ?fw_spec)]"
  let ?fw_fs = "[''/etc/patronus/config/FirewallRule-allow-ssh.yaml'' \<mapsto> Some (YDict ?fw_e)]"
  let ?nat_spec = "YDict [(''nat_type'', YStr ''destination''), (''interface'', YStr ''wan0''),
                    (''enabled'', YBool True), (''dest_address'', YStr ''203.0.113.50''),
                    (''translation_address'', YStr ''192.168.100.10'')]"
  let ?nat_m = "[(''name'', YStr ''dmz-dnat'')]"
  let ?nat_m' = "[(''name'', YStr ''dmz-dnat''), (''description'', YStr ''Destination NAT to DMZ'')]"
  let ?nat_e = "[(''apiVersion'', YStr ''patronus.firewall/v1''), (''kind'', YStr ''NatRule''),
                (''metadata'', YDict ?nat_m), (''spec'', ?nat_spec)]"
  let ?nat_d = "[(''apiVersion'', YStr ''patronus.firewall/v1''), (''kind'', YStr ''NatRule''),
                (''metadata'', YDict ?nat_m'), (''spec'', ?nat_spec)]"
  let ?nat_fs = "[''/etc/patronus/config/NatRule-dmz-dnat.yaml'' \<mapsto> Some (YDict ?nat_e)]"
  have fw_e: "generate_config_fw (scenario_A\<lparr>fw_description := Some ''SSH access''\<rparr>) = YDict ?fw_e"
    by (simp add: generate_config_fw_scenario_A set_if_truthy_def opt_str_def)
  have fw_d: "generate_config_fw scenario_A = YDict ?fw_d"
    using generate_config_fw_scenario_A [of None]
    by (simp add: set_if_truthy_def opt_str_def scenario_A_def)
  have nat_e: "generate_config_nat (dmz_dnat\<lparr>nat_description := None\<rparr>) = YDict ?nat_e"
    by (simp add: generate_config_nat_dmz_dnat set_if_truthy_def opt_str_def)
  have nat_d: "generate_config_nat dmz_dnat = YDict ?nat_d"
    using generate_config_nat_dmz_dnat [of "Some ''Destination NAT to DMZ''"]
    by (simp add: set_if_truthy_def opt_str_def dmz_dnat_def)
  have fw_read: "read_existing_config stub_yaml ?fw_fs
       (config_file_path_fw (fw_config_path scenario_A) (fw_name scenario_A)) = YDict ?fw_e"
    by (simp add: read_existing_config_def stub_yaml_def config_file_path_fw_def os_path_join_def
        scenario_A_def)
  have nat_read: "read_existing_config stub_yaml ?nat_fs
       (config_file_path_nat (nat_config_path dmz_dnat) (nat_name dmz_dnat)) = YDict ?nat_e"
    by (simp add: read_existing_config_def stub_yaml_def config_file_path_nat_def os_path_join_def
        dmz_dnat_def)
  have st: "fw_state scenario_A = Present" "nat_state dmz_dnat = Present"
    "fw_name scenario_A = ''allow-ssh''" "nat_name dmz_dnat = ''dmz-dnat''"
    by (simp_all add: scenario_A_def dmz_dnat_def)
  have fw: "main_fw stub_yaml False scenario_A ?fw_fs =
      (Inr \<lparr>changed = False,
            message = ''Firewall rule '' @ [CHR 0x27] @ ''allow-ssh'' @ [CHR 0x27]
                        @ '' already exists with desired configuration'',
            rule = Some (YDict ?fw_d)\<rparr>, ?fw_fs)"
    using description_not_compared [of ?fw_e ?fw_m "YStr ''allow-ssh''" ?fw_spec ?fw_d ?fw_m'
        "YStr ''allow-ssh''" ?fw_spec scenario_A stub_yaml ?fw_fs False]
      fw_d fw_read st
    by simp
  have nat: "main_nat stub_yaml False dmz_dnat ?nat_fs =
      (Inr \<lparr>changed = False,
            message = ''NAT rule '' @ [CHR 0x27] @ ''dmz-dnat'' @ [CHR 0x27]
                        @ '' already exists with desired configuration'',
            rule = Some (YDict ?nat_d)\<rparr>, ?nat_fs)"
    using description_not_compared [of ?nat_e ?nat_m "YStr ''dmz-dnat''" ?nat_spec ?nat_d ?nat_m'
        "YStr ''dmz-dnat''" ?nat_spec _ stub_yaml _ False dmz_dnat ?nat_fs]
      nat_d nat_read st
    by simp
  show ?thesis
    unfolding fw_e fw_d nat_e nat_d using fw nat by simp
qed

lemma map_of_header_edit:
  assumes "k \<noteq> ''apiVersion''" and "k \<noteq> ''kind''"
  shows "map_of ((case a of None \<Rightarrow> AList.delete ''apiVersion''
                          | Some v \<Rightarrow> AList.update ''apiVersion'' v)
                   ((case b of None \<Rightarrow> AList.delete ''kind''
                             | Some v \<Rightarrow> AList.update ''kind'' v) e)) k = map_of e k"
  using assms by (simp add: update_conv' delete_conv' split: option.splits)

text \<open>
  C10. The comparison does not look at \<^verbatim>\<open>apiVersion\<close> and \<^verbatim>\<open>kind\<close>. Let \<open>e\<close> be a
  document whose \<^verbatim>\<open>metadata.name\<close> and \<^verbatim>\<open>spec\<close> equal those of the desired document
  \<open>d\<close>, and let the file hold \<open>e\<close> with \<^verbatim>\<open>apiVersion\<close> and \<^verbatim>\<open>kind\<close> each set to any
  value (\<open>Some v\<close>) or removed (\<open>None\<close>). Then with \<^verbatim>\<open>state=present\<close> both modules
  report \<^verbatim>\<open>changed=false\<close> and leave the file system as it is.
\<close>

theorem api_version_and_kind_not_compared:
  assumes "map_of e ''metadata'' = Some (YDict m)" and "map_of m ''name'' = Some n"
      and "map_of e ''spec'' = Some s"
      and "map_of d ''metadata'' = Some (YDict m')" and "map_of m' ''name'' = Some n'"
      and "map_of d ''spec'' = Some s'"
      and "py_eq n n'" and "py_eq s s'"
      and "e' = (case api_version of None \<Rightarrow> AList.delete ''apiVersion''
                                   | Some v \<Rightarrow> AList.update ''apiVersion'' v)
                  ((case kind of None \<Rightarrow> AList.delete ''kind''
                               | Some v \<Rightarrow> AList.update ''kind'' v) e)"
  shows
   "(fw_state p = Present \<and> generate_config_fw p = YDict d \<and>
     read_existing_config yaml fs (config_file_path_fw (fw_config_path p) (fw_name p)) = YDict e'
     \<longrightarrow> (\<exists>r. main_fw yaml check_mode p fs = (Inr r, fs) \<and> \<not> changed r)) \<and>
    (nat_state q = Present \<and> generate_config_nat q = YDict d \<and>
     read_existing_config yaml gs (config_file_path_nat (nat_config_path q) (nat_name q)) = YDict e'
     \<longrightarrow> (\<exists>r. main_nat yaml check_mode q gs = (Inr r, gs) \<and> \<not> changed r))"
proof -
  have "map_of e' ''metadata'' = Some (YDict m)" "map_of e' ''spec'' = Some s"
    using assms by (simp_all add: map_of_header_edit)
  then have "configs_equal (YDict e') (YDict d) = Inr True"
    using assms by (simp add: configs_equal_dicts)
  then show ?thesis
    by (simp add: main_fw_unchanged main_nat_unchanged)
qed

theorem api_version_and_kind_not_compared_witness:
  "(\<exists>r. main_fw stub_yaml False scenario_A
          [''/etc/patronus/config/FirewallRule-allow-ssh.yaml'' \<mapsto>
             Some (YDict [(''apiVersion'', YStr ''patronus.firewall/v2''),
                          (''metadata'', YDict [(''name'', YStr ''allow-ssh'')]),
                          (''spec'',
                           YDict [(''action'', YStr ''allow''), (''log'', YBool False),
                                  (''enabled'', YBool True), (''protocol'', YStr ''tcp''),
                                  (''destination'', YDict [(''ports'', YList [YInt 22])])])])]
        = (Inr r,
           [''/etc/patronus/config/FirewallRule-allow-ssh.yaml'' \<mapsto>
             Some (YDict [(''apiVersion'', YStr ''patronus.firewall/v2''),
                          (''metadata'', YDict [(''name'', YStr ''allow-ssh'')]),
                          (''spec'',
                           YDict [(''action'', YStr ''allow''), (''log'', YBool False),
                                  (''enabled'', YBool True), (''protocol'', YStr ''tcp''),
                                  (''destination'', YDict [(''ports'', YList [YInt 22])])])])])
        \<and> \<not> changed r) \<and>
   (\<exists>r. main_nat stub_yaml False dmz_dnat
          [''/etc/patronus/config/NatRule-dmz-dnat.yaml'' \<mapsto>
             Some (YDict [(''kind'', YStr ''FirewallRule''),
                          (''metadata'',
                           YDict [(''name'', YStr ''dmz-dnat''),
                                  (''description'', YStr ''Destination NAT to DMZ'')]),
                          (''spec'',
                           YDict [(''nat_type'', YStr ''destination''),
                                  (''interface'', YStr ''wan0''), (''enabled'', YBool True),
                                  (''dest_address'', YStr ''203.0.113.50''),
                                  (''translation_address'', YStr ''192.168.100.10'')])])]
        = (Inr r,
           [''/etc/patronus/config/NatRule-dmz-dnat.yaml'' \<mapsto>
             Some (YDict [(''kind'', YStr ''FirewallRule''),
                          (''metadata'',
                           YDict [(''name'', YStr ''dmz-dnat''),
                                  (''description'', YStr ''Destination NAT to DMZ'')]),
                          (''spec'',
                           YDict [(''nat_type'', YStr ''destination''),
                                  (''interface'', YStr ''wan0''), (''enabled'', YBool True),
                                  (''dest_address'', YStr ''203.0.113.50''),
                                  (''translation_address'', YStr ''192.168.100.10'')])])])
        \<and> \<not> changed r)"
proof -
  let ?fw_spec = "YDict [(''action'', YStr ''allow''), (''log'', YBool False),
                    (''enabled'', YBool True), (''protocol'', YStr ''tcp''),
                    (''destination'', YDict [(''ports'', YList [YInt 22])])]"
  let ?fw_m = "[(''name'', YStr ''allow-ssh'')]"
  let ?fw_d = "[(''apiVersion'', YStr ''patronus.firewall/v1''), (''kind'', YStr ''FirewallRule''),
                (''metadata'', YDict ?fw_m), (''spec'', ?fw_spec)]"
  let ?fw_e' = "[(''apiVersion'', YStr ''patronus.firewall/v2''),
                (''metadata'', YDict ?fw_m), (''spec'', ?fw_spec)]"
  let ?fw_fs = "[''/etc/patronus/config/FirewallRule-allow-ssh.yaml'' \<mapsto> Some (YDict ?fw_e')]"
  let ?nat_spec = "YDict [(''nat_type'', YStr ''destination''), (''interface'', YStr ''wan0''),
                    (''enabled'', YBool True), (''dest_address'', YStr ''203.0.113.50''),
                    (''translation_address'', YStr ''192.168.100.10'')]"
  let ?nat_m = "[(''name'', YStr ''dmz-dnat''), (''description'', YStr ''Destination NAT to DMZ'')]"
  let ?nat_d = "[(''apiVersion'', YStr ''patronus.firewall/v1''), (''kind'', YStr ''NatRule''),
                (''metadata'', YDict ?nat_m), (''spec'', ?nat_spec)]"
  let ?nat_e' = "[(''kind'', YStr ''FirewallRule''),
                (''metadata'', YDict ?nat_m), (''spec'', ?nat_spec)]"
  let ?nat_fs = "[''/etc/patronus/config/NatRule-dmz-dnat.yaml'' \<mapsto> Some (YDict ?nat_e')]"
  have fw_d: "generate_config_fw scenario_A = YDict ?fw_d"
    using generate_config_fw_scenario_A [of None]
    by (simp add: set_if_truthy_def opt_str_def scenario_A_def)
  have nat_d: "generate_config_nat dmz_dnat = YDict ?nat_d"
    using generate_config_nat_dmz_dnat [of "Some ''Destination NAT to DMZ''"]
    by (simp add: set_if_truthy_def opt_str_def dmz_dnat_def)
  have fw_read: "read_existing_config stub_yaml ?fw_fs
       (config_file_path_fw (fw_config_path scenario_A) (fw_name scenario_A)) = YDict ?fw_e'"
    by (simp add: read_existing_config_def stub_yaml_def config_file_path_fw_def os_path_join_def
        scenario_A_def)
  have nat_read: "read_existing_config stub_yaml ?nat_fs
       (config_file_path_nat (nat_config_path dmz_dnat) (nat_name dmz_dnat)) = YDict ?nat_e'"
    by (simp add: read_existing_config_def stub_yaml_def config_file_path_nat_def os_path_join_def
        dmz_dnat_def)
  have st: "fw_state scenario_A = Present" "nat_state dmz_dnat = Present"
    by (simp_all add: scenario_A_def dmz_dnat_def)
  have fw: "\<exists>r. main_fw stub_yaml False scenario_A ?fw_fs = (Inr r, ?fw_fs) \<and> \<not> changed r"
    using api_version_and_kind_not_compared [of ?fw_d ?fw_m "YStr ''allow-ssh''" ?fw_spec ?fw_d ?fw_m
        "YStr ''allow-ssh''" ?fw_spec ?fw_e' "Some (YStr ''patronus.firewall/v2'')" None
        scenario_A stub_yaml ?fw_fs False]
      fw_d fw_read st
    by simp
  have nat: "\<exists>r. main_nat stub_yaml False dmz_dnat ?nat_fs = (Inr r, ?nat_fs) \<and> \<not> changed r"
    using api_version_and_kind_not_compared [of ?nat_d ?nat_m "YStr ''dmz-dnat''" ?nat_spec ?nat_d
        ?nat_m "YStr ''dmz-dnat''" ?nat_spec ?nat_e' None "Some (YStr ''FirewallRule'')"
        _ stub_yaml _ False dmz_dnat ?nat_fs]
      nat_d nat_read st
    by simp
  from fw nat show ?thesis by blast
qed

section \<open>Missing and unparsable files, dry runs, scenario A\<close>

lemma path_scenario_A:
  "config_file_path_fw (fw_config_path scenario_A) (fw_name scenario_A) =
     ''/etc/patronus/config/FirewallRule-allow-ssh.yaml''"
  by (simp add: config_file_path_fw_def os_path_join_def scenario_A_def)

lemma path_dmz_dnat:
  "config_file_path_nat (nat_config_path dmz_dnat) (nat_name dmz_dnat) =
     ''/etc/patronus/config/NatRule-dmz-dnat.yaml''"
  by (simp add: config_file_path_nat_def os_path_join_def dmz_dnat_def)

lemma makedirs_scenario_A:
  "os_makedirs (os_path_dirname ''/etc/patronus/config/FirewallRule-allow-ssh.yaml'') = Inr ()"
  by (simp add: os_makedirs_def os_path_dirname_def)

lemma makedirs_dmz_dnat:
  "os_makedirs (os_path_dirname ''/etc/patronus/config/NatRule-dmz-dnat.yaml'') = Inr ()"
  by (simp add: os_makedirs_def os_path_dirname_def)

lemma write_config_Inl:
  "write_config yaml fs filepath c = Inl e \<longleftrightarrow> os_makedirs (os_path_dirname filepath) = Inl e"
  by (simp add: write_config_def split: sum.splits)

lemma write_config_Inr:
  "write_config yaml fs filepath c = Inr fs' \<longleftrightarrow>
     os_makedirs (os_path_dirname filepath) = Inr () \<and> fs' = fs(filepath \<mapsto> yaml_dump yaml c)"
  by (auto simp: write_config_def split: sum.splits)

lemma read_missing: "fs filepath = None \<Longrightarrow> read_existing_config yaml fs filepath = YNull"
  by (simp add: read_existing_config_def)

lemma read_unparsable:
  "fs filepath = Some contents \<Longrightarrow> yaml_safe_load yaml contents = Inl e \<Longrightarrow>
   read_existing_config yaml fs filepath = YNull"
  by (simp add: read_existing_config_def)

lemma configs_equal_YNull_fw: "configs_equal YNull (generate_config_fw p) = Inr False"
  using desired_fw_parts [of p] by (auto simp: configs_equal_YNull)

lemma configs_equal_YNull_nat: "configs_equal YNull (generate_config_nat p) = Inr False"
  using desired_nat_parts [of p] by (auto simp: configs_equal_YNull)

lemma main_fw_no_document:
  assumes "read_existing_config yaml fs (config_file_path_fw (fw_config_path p) (fw_name p)) = YNull"
  shows "fst (main_fw yaml check_mode p fs) =
     (case fw_state p of
        Present \<Rightarrow>
          (if check_mode then
             Inr \<lparr>changed = True,
                  message = ''Created firewall rule '' @ [CHR 0x27] @ fw_name p @ [CHR 0x27],
                  rule = Some (generate_config_fw p)\<rparr>
           else
             (case os_makedirs
                     (os_path_dirname (config_file_path_fw (fw_config_path p) (fw_name p))) of
                Inl e \<Rightarrow> Inl e
              | Inr u \<Rightarrow>
                  Inr \<lparr>changed = True,
                       message = ''Created firewall rule '' @ [CHR 0x27] @ fw_name p @ [CHR 0x27],
                       rule = Some (generate_config_fw p)\<rparr>))
      | Absent \<Rightarrow>
          Inr \<lparr>changed = False,
               message = ''Firewall rule '' @ [CHR 0x27] @ fw_name p @ [CHR 0x27]
                           @ '' already absent'',
               rule = None\<rparr>)"
  using assms
  by (cases "fw_state p")
     (simp_all add: main_fw_present main_fw_absent configs_equal_YNull_fw split: sum.splits)

lemma main_nat_no_document:
  assumes "read_existing_config yaml fs (config_file_path_nat (nat_config_path p) (nat_name p)) = YNull"
  shows "fst (main_nat yaml check_mode p fs) =
     (case nat_state p of
        Present \<Rightarrow>
          (if check_mode then
             Inr \<lparr>changed = True,
                  message = ''Created NAT rule '' @ [CHR 0x27] @ nat_name p @ [CHR 0x27],
                  rule = Some (generate_config_nat p)\<rparr>
           else
             (case os_makedirs
                     (os_path_dirname (config_file_path_nat (nat_config_path p) (nat_name p))) of
                Inl e \<Rightarrow> Inl e
              | Inr u \<Rightarrow>
                  Inr \<lparr>changed = True,
                       message = ''Created NAT rule '' @ [CHR 0x27] @ nat_name p @ [CHR 0x27],
                       rule = Some (generate_config_nat p)\<rparr>))
      | Absent \<Rightarrow>
          Inr \<lparr>changed = False,
               message = ''NAT rule '' @ [CHR 0x27] @ nat_name p @ [CHR 0x27]
                           @ '' already absent'',
               rule = None\<rparr>)"
  using assms
  by (cases "nat_state p")
     (simp_all add: main_nat_present main_nat_absent configs_equal_YNull_nat split: sum.splits)

lemma unparsable_fw:
  assumes "gs (config_file_path_fw (fw_config_path p) (fw_name p)) = Some contents"
      and "yaml_safe_load yaml contents = Inl e"
  shows "fst (main_fw yaml check_mode p gs) =
           fst (main_fw yaml check_mode p
                  (gs(config_file_path_fw (fw_config_path p) (fw_name p) := None))) \<and>
         (check_mode \<or> fw_state p = Absent \<or>
          write_config yaml gs (config_file_path_fw (fw_config_path p) (fw_name p))
            (generate_config_fw p) = Inr gs'
          \<longrightarrow> (\<exists>r. fst (main_fw yaml check_mode p gs) = Inr r)) \<and>
         (fst (main_fw yaml check_mode p gs) = Inl e'
          \<longrightarrow> write_config yaml gs (config_file_path_fw (fw_config_path p) (fw_name p))
                (generate_config_fw p) = Inl e')"
proof (intro conjI impI)
  let ?path = "config_file_path_fw (fw_config_path p) (fw_name p)"
  from assms have 1: "read_existing_config yaml gs ?path = YNull"
    by (simp add: read_unparsable)
  have 2: "read_existing_config yaml (gs(?path := None)) ?path = YNull"
    by (simp add: read_missing)
  show "fst (main_fw yaml check_mode p gs) = fst (main_fw yaml check_mode p (gs(?path := None)))"
    by (simp only: main_fw_no_document [OF 1] main_fw_no_document [OF 2])
  show "\<exists>r. fst (main_fw yaml check_mode p gs) = Inr r"
    if "check_mode \<or> fw_state p = Absent \<or>
        write_config yaml gs ?path (generate_config_fw p) = Inr gs'"
    using that
    by (cases "fw_state p") (auto simp: main_fw_no_document [OF 1] write_config_Inr)
  show "write_config yaml gs ?path (generate_config_fw p) = Inl e'"
    if "fst (main_fw yaml check_mode p gs) = Inl e'"
    using that
    by (cases "fw_state p")
       (auto simp: main_fw_no_document [OF 1] write_config_Inl split: if_splits sum.splits)
qed

lemma unparsable_nat:
  assumes "gs (config_file_path_nat (nat_config_path p) (nat_name p)) = Some contents"
      and "yaml_safe_load yaml contents = Inl e"
  shows "fst (main_nat yaml check_mode p gs) =
           fst (main_nat yaml check_mode p
                  (gs(config_file_path_nat (nat_config_path p) (nat_name p) := None))) \<and>
         (check_mode \<or> nat_state p = Absent \<or>
          write_config yaml gs (config_file_path_nat (nat_config_path p) (nat_name p))
            (generate_config_nat p) = Inr gs'
          \<longrightarrow> (\<exists>r. fst (main_nat yaml check_mode p gs) = Inr r)) \<and>
         (fst (main_nat yaml check_mode p gs) = Inl e'
          \<longrightarrow> write_config yaml gs (config_file_path_nat (nat_config_path p) (nat_name p))
                (generate_config_nat p) = Inl e')"
proof (intro conjI impI)
  let ?path = "config_file_path_nat (nat_config_path p) (nat_name p)"
  from assms have 1: "read_existing_config yaml gs ?path = YNull"
    by (simp add: read_unparsable)
  have 2: "read_existing_config yaml (gs(?path := None)) ?path = YNull"
    by (simp add: read_missing)
  show "fst (main_nat yaml check_mode p gs) = fst (main_nat yaml check_mode p (gs(?path := None)))"
    by (simp only: main_nat_no_document [OF 1] main_nat_no_document [OF 2])
  show "\<exists>r. fst (main_nat yaml check_mode p gs) = Inr r"
    if "check_mode \<or> nat_state p = Absent \<or>
        write_config yaml gs ?path (generate_config_nat p) = Inr gs'"
    using that
    by (cases "nat_state p") (auto simp: main_nat_no_document [OF 1] write_config_Inr)
  show "write_config yaml gs ?path (generate_config_nat p) = Inl e'"
    if "fst (main_nat yaml check_mode p gs) = Inl e'"
    using that
    by (cases "nat_state p")
       (auto simp: main_nat_no_document [OF 1] write_config_Inl split: if_splits sum.splits)
qed

text \<open>
  C7. \<^verbatim>\<open>read_existing_config\<close> returns \<^verbatim>\<open>None\<close> when the file does not exist and when
  its contents do not parse. A module run on a file that does not parse has the outcome it
  has when the file is not there. The parse failure never ends the run: a dry run, a run
  with \<^verbatim>\<open>state=absent\<close> and a run whose write succeeds report a result, and an
  exception that ends the run is the one \<^verbatim>\<open>write_config\<close> raises.
\<close>

theorem unparsable_file_is_absent:
  "(fs filepath = None \<or>
    (\<exists>contents e. fs filepath = Some contents \<and> yaml_safe_load yaml contents = Inl e)
    \<longrightarrow> read_existing_config yaml fs filepath = YNull) \<and>
   (gs (config_file_path_fw (fw_config_path p) (fw_name p)) = Some contents \<and>
    yaml_safe_load yaml contents = Inl e
    \<longrightarrow> fst (main_fw yaml check_mode p gs) =
          fst (main_fw yaml check_mode p
                 (gs(config_file_path_fw (fw_config_path p) (fw_name p) := None))) \<and>
        (check_mode \<or> fw_state p = Absent \<or>
         write_config yaml gs (config_file_path_fw (fw_config_path p) (fw_name p))
           (generate_config_fw p) = Inr gs'
         \<longrightarrow> (\<exists>r. fst (main_fw yaml check_mode p gs) = Inr r)) \<and>
        (fst (main_fw yaml check_mode p gs) = Inl e'
         \<longrightarrow> write_config yaml gs (config_file_path_fw (fw_config_path p) (fw_name p))
               (generate_config_fw p) = Inl e')) \<and>
   (hs (config_file_path_nat (nat_config_path q) (nat_name q)) = Some contents \<and>
    yaml_safe_load yaml contents = Inl e
    \<longrightarrow> fst (main_nat yaml check_mode q hs) =
          fst (main_nat yaml check_mode q
                 (hs(config_file_path_nat (nat_config_path q) (nat_name q) := None))) \<and>
        (check_mode \<or> nat_state q = Absent \<or>
         write_config yaml hs (config_file_path_nat (nat_config_path q) (nat_name q))
           (generate_config_nat q) = Inr hs'
         \<longrightarrow> (\<exists>r. fst (main_nat yaml check_mode q hs) = Inr r)) \<and>
        (fst (main_nat yaml check_mode q hs) = Inl e'
         \<longrightarrow> write_config yaml hs (config_file_path_nat (nat_config_path q) (nat_name q))
               (generate_config_nat q) = Inl e'))"
proof (intro conjI)
  show "fs filepath = None \<or>
    (\<exists>contents e. fs filepath = Some contents \<and> yaml_safe_load yaml contents = Inl e)
    \<longrightarrow> read_existing_config yaml fs filepath = YNull"
    by (auto simp: read_missing read_unparsable)
  show "gs (config_file_path_fw (fw_config_path p) (fw_name p)) = Some contents \<and>
    yaml_safe_load yaml contents = Inl e
    \<longrightarrow> fst (main_fw yaml check_mode p gs) =
          fst (main_fw yaml check_mode p
                 (gs(config_file_path_fw (fw_config_path p) (fw_name p) := None))) \<and>
        (check_mode \<or> fw_state p = Absent \<or>
         write_config yaml gs (config_file_path_fw (fw_config_path p) (fw_name p))
           (generate_config_fw p) = Inr gs'
         \<longrightarrow> (\<exists>r. fst (main_fw yaml check_mode p gs) = Inr r)) \<and>
        (fst (main_fw yaml check_mode p gs) = Inl e'
         \<longrightarrow> write_config yaml gs (config_file_path_fw (fw_config_path p) (fw_name p))
               (generate_config_fw p) = Inl e')"
    using unparsable_fw [of gs p contents yaml e check_mode gs' e'] by blast
  show "hs (config_file_path_nat (nat_config_path q) (nat_name q)) = Some contents \<and>
    yaml_safe_load yaml contents = Inl e
    \<longrightarrow> fst (main_nat yaml check_mode q hs) =
          fst (main_nat yaml check_mode q
                 (hs(config_file_path_nat (nat_config_path q) (nat_name q) := None))) \<and>
        (check_mode \<or> nat_state q = Absent \<or>
         write_config yaml hs (config_file_path_nat (nat_config_path q) (nat_name q))
           (generate_config_nat q) = Inr hs'
         \<longrightarrow> (\<exists>r. fst (main_nat yaml check_mode q hs) = Inr r)) \<and>
        (fst (main_nat yaml check_mode q hs) = Inl e'
         \<longrightarrow> write_config yaml hs (config_file_path_nat (nat_config_path q) (nat_name q))
               (generate_config_nat q) = Inl e')"
    using unparsable_nat [of hs q contents yaml e check_mode hs' e'] by blast
qed

theorem unparsable_file_is_absent_witness:
  "yaml_safe_load stub_yaml None = Inl YAMLError \<and>
   read_existing_config stub_yaml
     [''/etc/patronus/config/FirewallRule-allow-ssh.yaml'' \<mapsto> None]
     ''/etc/patronus/config/FirewallRule-allow-ssh.yaml'' = YNull \<and>
   fst (main_fw stub_yaml False scenario_A
          [''/etc/patronus/config/FirewallRule-allow-ssh.yaml'' \<mapsto> None]) =
     fst (main_fw stub_yaml False scenario_A Map.empty) \<and>
   (\<exists>r. fst (main_fw stub_yaml False scenario_A
          [''/etc/patronus/config/FirewallRule-allow-ssh.yaml'' \<mapsto> None]) = Inr r) \<and>
   fst (main_nat stub_yaml False dmz_dnat
          [''/etc/patronus/config/NatRule-dmz-dnat.yaml'' \<mapsto> None]) =
     fst (main_nat stub_yaml False dmz_dnat Map.empty) \<and>
   (\<exists>r. fst (main_nat stub_yaml False dmz_dnat
          [''/etc/patronus/config/NatRule-dmz-dnat.yaml'' \<mapsto> None]) = Inr r)"
proof -
  let ?gs = "[''/etc/patronus/config/FirewallRule-allow-ssh.yaml'' \<mapsto> (None :: yval option)]"
  let ?hs = "[''/etc/patronus/config/NatRule-dmz-dnat.yaml'' \<mapsto> (None :: yval option)]"
  have l: "yaml_safe_load stub_yaml None = Inl YAMLError"
    by (simp add: stub_yaml_def)
  have w: "write_config stub_yaml ?gs ''/etc/patronus/config/FirewallRule-allow-ssh.yaml''
             (generate_config_fw scenario_A)
           = Inr (?gs(''/etc/patronus/config/FirewallRule-allow-ssh.yaml''
                        \<mapsto> Some (generate_config_fw scenario_A)))"
    "write_config stub_yaml ?hs ''/etc/patronus/config/NatRule-dmz-dnat.yaml''
             (generate_config_nat dmz_dnat)
           = Inr (?hs(''/etc/patronus/config/NatRule-dmz-dnat.yaml''
                        \<mapsto> Some (generate_config_nat dmz_dnat)))"
    by (simp_all add: write_config_Inr makedirs_scenario_A makedirs_dmz_dnat stub_yaml_def)
  show ?thesis
    using unparsable_file_is_absent
      [of ?gs "''/etc/patronus/config/FirewallRule-allow-ssh.yaml''" stub_yaml
          ?gs scenario_A None YAMLError False
          "?gs(''/etc/patronus/config/FirewallRule-allow-ssh.yaml''
                 \<mapsto> Some (generate_config_fw scenario_A))" YAMLError
          ?hs dmz_dnat
          "?hs(''/etc/patronus/config/NatRule-dmz-dnat.yaml''
                 \<mapsto> Some (generate_config_nat dmz_dnat))"]
      l w main_fw_scenario_A main_nat_dmz_dnat
    by (simp add: path_scenario_A path_dmz_dnat)
qed

lemma check_mode_fw:
  "snd (main_fw yaml True p fs) = fs \<and>
   (fw_state p = Absent \<or>
    write_config yaml fs (config_file_path_fw (fw_config_path p) (fw_name p))
      (generate_config_fw p) = Inr fs'
    \<longrightarrow> fst (main_fw yaml True p fs) = fst (main_fw yaml False p fs)) \<and>
   (fst (main_fw yaml False p fs) = fst (main_fw yaml True p fs) \<or>
    (\<exists>e r. write_config yaml fs (config_file_path_fw (fw_config_path p) (fw_name p))
              (generate_config_fw p) = Inl e \<and>
           fst (main_fw yaml False p fs) = Inl e \<and>
           fst (main_fw yaml True p fs) = Inr r \<and> changed r))"
proof (cases "fw_state p")
  case Absent
  then show ?thesis by (simp add: main_fw_absent)
next
  case Present
  then show ?thesis
    by (auto simp: main_fw_present write_config_Inr write_config_Inl
        split: sum.splits bool.splits)
qed

lemma check_mode_nat:
  "snd (main_nat yaml True p fs) = fs \<and>
   (nat_state p = Absent \<or>
    write_config yaml fs (config_file_path_nat (nat_config_path p) (nat_name p))
      (generate_config_nat p) = Inr fs'
    \<longrightarrow> fst (main_nat yaml True p fs) = fst (main_nat yaml False p fs)) \<and>
   (fst (main_nat yaml False p fs) = fst (main_nat yaml True p fs) \<or>
    (\<exists>e r. write_config yaml fs (config_file_path_nat (nat_config_path p) (nat_name p))
              (generate_config_nat p) = Inl e \<and>
           fst (main_nat yaml False p fs) = Inl e \<and>
           fst (main_nat yaml True p fs) = Inr r \<and> changed r))"
proof (cases "nat_state p")
  case Absent
  then show ?thesis by (simp add: main_nat_absent)
next
  case Present
  then show ?thesis
    by (auto simp: main_nat_present write_config_Inr write_config_Inl
        split: sum.splits bool.splits)
qed

text \<open>
  C9, as stated: for every parameter set and every starting state a dry run reports what a
  real run reports. It fails where the real run cannot write. With \<^verbatim>\<open>config_path\<close> the
  empty string the rule file has no directory part, \<^verbatim>\<open>os.makedirs('')\<close> raises, and the
  real run ends with that exception while the dry run, which skips \<^verbatim>\<open>write_config\<close>,
  reports that the rule was created.
\<close>

theorem dry_run_reports_a_write_that_fails:
  "fst (main_fw stub_yaml True (scenario_A\<lparr>fw_config_path := ''''\<rparr>) Map.empty) =
     Inr \<lparr>changed = True,
          message = ''Created firewall rule '' @ [CHR 0x27] @ ''allow-ssh'' @ [CHR 0x27],
          rule = Some (generate_config_fw (scenario_A\<lparr>fw_config_path := ''''\<rparr>))\<rparr> \<and>
   fst (main_fw stub_yaml False (scenario_A\<lparr>fw_config_path := ''''\<rparr>) Map.empty) =
     Inl FileNotFoundError \<and>
   fst (main_nat stub_yaml True (dmz_dnat\<lparr>nat_config_path := ''''\<rparr>) Map.empty) =
     Inr \<lparr>changed = True,
          message = ''Created NAT rule '' @ [CHR 0x27] @ ''dmz-dnat'' @ [CHR 0x27],
          rule = Some (generate_config_nat (dmz_dnat\<lparr>nat_config_path := ''''\<rparr>))\<rparr> \<and>
   fst (main_nat stub_yaml False (dmz_dnat\<lparr>nat_config_path := ''''\<rparr>) Map.empty) =
     Inl FileNotFoundError"
  by (simp add: eval_defs)

text \<open>
  C9, amended: for every parameter set and every starting state a dry run leaves the file
  system as it is, and it reports what the real run reports (the same \<^verbatim>\<open>changed\<close> flag,
  message and rule, or the same exception) whenever the state is \<^verbatim>\<open>absent\<close> or the
  real run's write of the desired document succeeds. Otherwise the real run ends with the
  exception of \<^verbatim>\<open>write_config\<close> and the dry run reports the change the real run could not
  make. Both modules.
\<close>

theorem check_mode_same_outcome:
  "snd (main_fw yaml True p fs) = fs \<and>
   (fw_state p = Absent \<or>
    write_config yaml fs (config_file_path_fw (fw_config_path p) (fw_name p))
      (generate_config_fw p) = Inr fs'
    \<longrightarrow> fst (main_fw yaml True p fs) = fst (main_fw yaml False p fs)) \<and>
   (fst (main_fw yaml False p fs) = fst (main_fw yaml True p fs) \<or>
    (\<exists>e r. write_config yaml fs (config_file_path_fw (fw_config_path p) (fw_name p))
              (generate_config_fw p) = Inl e \<and>
           fst (main_fw yaml False p fs) = Inl e \<and>
           fst (main_fw yaml True p fs) = Inr r \<and> changed r)) \<and>
   snd (main_nat yaml True q gs) = gs \<and>
   (nat_state q = Absent \<or>
    write_config yaml gs (config_file_path_nat (nat_config_path q) (nat_name q))
      (generate_config_nat q) = Inr gs'
    \<longrightarrow> fst (main_nat yaml True q gs) = fst (main_nat yaml False q gs)) \<and>
   (fst (main_nat yaml False q gs) = fst (main_nat yaml True q gs) \<or>
    (\<exists>e r. write_config yaml gs (config_file_path_nat (nat_config_path q) (nat_name q))
              (generate_config_nat q) = Inl e \<and>
           fst (main_nat yaml False q gs) = Inl e \<and>
           fst (main_nat yaml True q gs) = Inr r \<and> changed r))"
  using check_mode_fw [of yaml p fs fs'] check_mode_nat [of yaml q gs gs']
  by (elim conjE) (intro conjI; assumption)

theorem check_mode_same_outcome_witness:
  "write_config stub_yaml Map.empty
     (config_file_path_fw (fw_config_path scenario_A) (fw_name scenario_A))
     (generate_config_fw scenario_A)
     = Inr [''/etc/patronus/config/FirewallRule-allow-ssh.yaml''
              \<mapsto> Some (generate_config_fw scenario_A)] \<and>
   fst (main_fw stub_yaml True scenario_A Map.empty) =
     fst (main_fw stub_yaml False scenario_A Map.empty) \<and>
   fst (main_fw stub_yaml True scenario_A Map.empty) =
     Inr \<lparr>changed = True,
          message = ''Created firewall rule '' @ [CHR 0x27] @ ''allow-ssh'' @ [CHR 0x27],
          rule = Some (generate_config_fw scenario_A)\<rparr> \<and>
   snd (main_fw stub_yaml True scenario_A Map.empty) = Map.empty \<and>
   snd (main_fw stub_yaml False scenario_A Map.empty) \<noteq> Map.empty \<and>
   write_config stub_yaml Map.empty
     (config_file_path_nat (nat_config_path dmz_dnat) (nat_name dmz_dnat))
     (generate_config_nat dmz_dnat)
     = Inr [''/etc/patronus/config/NatRule-dmz-dnat.yaml''
              \<mapsto> Some (generate_config_nat dmz_dnat)] \<and>
   fst (main_nat stub_yaml True dmz_dnat Map.empty) =
     fst (main_nat stub_yaml False dmz_dnat Map.empty) \<and>
   fst (main_nat stub_yaml True dmz_dnat Map.empty) =
     Inr \<lparr>changed = True,
          message = ''Created NAT rule '' @ [CHR 0x27] @ ''dmz-dnat'' @ [CHR 0x27],
          rule = Some (generate_config_nat dmz_dnat)\<rparr> \<and>
   snd (main_nat stub_yaml True dmz_dnat Map.empty) = Map.empty \<and>
   snd (main_nat stub_yaml False dmz_dnat Map.empty) \<noteq> Map.empty"
proof -
  have w: "write_config stub_yaml Map.empty
     (config_file_path_fw (fw_config_path scenario_A) (fw_name scenario_A))
     (generate_config_fw scenario_A)
     = Inr [''/etc/patronus/config/FirewallRule-allow-ssh.yaml''
              \<mapsto> Some (generate_config_fw scenario_A)]"
    "write_config stub_yaml Map.empty
     (config_file_path_nat (nat_config_path dmz_dnat) (nat_name dmz_dnat))
     (generate_config_nat dmz_dnat)
     = Inr [''/etc/patronus/config/NatRule-dmz-dnat.yaml''
              \<mapsto> Some (generate_config_nat dmz_dnat)]"
    by (simp_all add: write_config_Inr path_scenario_A path_dmz_dnat makedirs_scenario_A
        makedirs_dmz_dnat stub_yaml_def)
  note T = check_mode_same_outcome
      [of stub_yaml scenario_A Map.empty
          "[''/etc/patronus/config/FirewallRule-allow-ssh.yaml''
              \<mapsto> Some (generate_config_fw scenario_A)]"
          dmz_dnat Map.empty
          "[''/etc/patronus/config/NatRule-dmz-dnat.yaml''
              \<mapsto> Some (generate_config_nat dmz_dnat)]"]
  have s1: "snd (main_fw stub_yaml True scenario_A Map.empty) = Map.empty"
    by (rule T [THEN conjunct1])
  have e1: "fst (main_fw stub_yaml True scenario_A Map.empty) =
      fst (main_fw stub_yaml False scenario_A Map.empty)"
    by (rule T [THEN conjunct2, THEN conjunct1, THEN mp]) (rule disjI2, rule w(1))
  have s2: "snd (main_nat stub_yaml True dmz_dnat Map.empty) = Map.empty"
    by (rule T [THEN conjunct2, THEN conjunct2, THEN conjunct2, THEN conjunct1])
  have e2: "fst (main_nat stub_yaml True dmz_dnat Map.empty) =
      fst (main_nat stub_yaml False dmz_dnat Map.empty)"
    by (rule T [THEN conjunct2, THEN conjunct2, THEN conjunct2, THEN conjunct2, THEN conjunct1,
          THEN mp])
       (rule disjI2, rule w(2))
  show ?thesis
    by (simp add: w s1 e1 s2 e2 main_fw_scenario_A main_nat_dmz_dnat)
qed

text \<open>
  C8. Scenario A: \<open>scenario_A\<close> is \<^verbatim>\<open>name=allow-ssh\<close>, \<^verbatim>\<open>action=allow\<close>,
  \<^verbatim>\<open>protocol=tcp\<close>, \<^verbatim>\<open>dest_ports=[22]\<close>, the other optional parameters unset and the
  defaults \<^verbatim>\<open>log=false\<close>, \<^verbatim>\<open>enabled=true\<close>, \<^verbatim>\<open>state=present\<close> and
  \<^verbatim>\<open>config_path=/etc/patronus/config\<close>. When no file exists at the rule's path, a real
  run of the firewall module writes the file \<^verbatim>\<open>FirewallRule-allow-ssh.yaml\<close> in the
  configuration directory, reports \<^verbatim>\<open>changed=true\<close>, and the document it reports and
  writes has the \<^verbatim>\<open>spec\<close> of the scenario, with exactly those five keys.
\<close>

theorem scenario_A_creates_rule:
  assumes "fs ''/etc/patronus/config/FirewallRule-allow-ssh.yaml'' = None"
  shows
   "config_file_path_fw (fw_config_path scenario_A) (fw_name scenario_A) =
      os_path_join ''/etc/patronus/config'' ''FirewallRule-allow-ssh.yaml'' \<and>
    config_file_path_fw (fw_config_path scenario_A) (fw_name scenario_A) =
      ''/etc/patronus/config/FirewallRule-allow-ssh.yaml'' \<and>
    main_fw yaml False scenario_A fs =
      (Inr \<lparr>changed = True,
             message = ''Created firewall rule '' @ [CHR 0x27] @ ''allow-ssh'' @ [CHR 0x27],
             rule = Some (generate_config_fw scenario_A)\<rparr>,
       fs(''/etc/patronus/config/FirewallRule-allow-ssh.yaml''
            \<mapsto> yaml_dump yaml (generate_config_fw scenario_A))) \<and>
    generate_config_fw scenario_A =
      YDict [(''apiVersion'', YStr ''patronus.firewall/v1''),
             (''kind'', YStr ''FirewallRule''),
             (''metadata'', YDict [(''name'', YStr ''allow-ssh'')]),
             (''spec'',
              YDict [(''action'', YStr ''allow''), (''log'', YBool False),
                     (''enabled'', YBool True), (''protocol'', YStr ''tcp''),
                     (''destination'', YDict [(''ports'', YList [YInt 22])])])] \<and>
    dict_get (generate_config_fw scenario_A) ''spec'' YNull =
      Inr (YDict [(''action'', YStr ''allow''), (''log'', YBool False),
                  (''enabled'', YBool True), (''protocol'', YStr ''tcp''),
                  (''destination'', YDict [(''ports'', YList [YInt 22])])])"
proof -
  have g: "generate_config_fw scenario_A =
      YDict [(''apiVersion'', YStr ''patronus.firewall/v1''),
             (''kind'', YStr ''FirewallRule''),
             (''metadata'', YDict [(''name'', YStr ''allow-ssh'')]),
             (''spec'',
              YDict [(''action'', YStr ''allow''), (''log'', YBool False),
                     (''enabled'', YBool True), (''protocol'', YStr ''tcp''),
                     (''destination'', YDict [(''ports'', YList [YInt 22])])])]"
    using generate_config_fw_scenario_A [of None]
    by (simp add: set_if_truthy_def opt_str_def scenario_A_def)
  have r: "read_existing_config yaml fs
             (config_file_path_fw (fw_config_path scenario_A) (fw_name scenario_A)) = YNull"
    using assms by (simp add: path_scenario_A read_missing)
  have st: "fw_state scenario_A = Present" "fw_name scenario_A = ''allow-ssh''"
    by (simp_all add: scenario_A_def)
  have m: "main_fw yaml False scenario_A fs =
      (Inr \<lparr>changed = True,
             message = ''Created firewall rule '' @ [CHR 0x27] @ ''allow-ssh'' @ [CHR 0x27],
             rule = Some (generate_config_fw scenario_A)\<rparr>,
       fs(''/etc/patronus/config/FirewallRule-allow-ssh.yaml''
            \<mapsto> yaml_dump yaml (generate_config_fw scenario_A)))"
  proof -
    have "main_fw yaml False scenario_A fs =
      (Inr \<lparr>changed = True,
             message = ''Created firewall rule '' @ [CHR 0x27] @ fw_name scenario_A @ [CHR 0x27],
             rule = Some (generate_config_fw scenario_A)\<rparr>,
       fs(''/etc/patronus/config/FirewallRule-allow-ssh.yaml''
            \<mapsto> yaml_dump yaml (generate_config_fw scenario_A)))"
      by (simp add: main_fw_present [OF st(1)] r [unfolded path_scenario_A]
          configs_equal_YNull_fw path_scenario_A makedirs_scenario_A)
    then show ?thesis by (simp only: st(2))
  qed
  have p: "os_path_join ''/etc/patronus/config'' ''FirewallRule-allow-ssh.yaml'' =
      ''/etc/patronus/config/FirewallRule-allow-ssh.yaml''"
    by (simp add: os_path_join_def)
  show ?thesis
    apply (intro conjI)
        apply (simp only: path_scenario_A p)
       apply (rule path_scenario_A)
      apply (rule m)
     apply (rule g)
    apply (simp only: g dict_get_YDict)
    apply simp
    done
qed

theorem scenario_A_creates_rule_witness:
  "main_fw stub_yaml False scenario_A Map.empty =
      (Inr \<lparr>changed = True,
             message = ''Created firewall rule '' @ [CHR 0x27] @ ''allow-ssh'' @ [CHR 0x27],
             rule = Some (generate_config_fw scenario_A)\<rparr>,
       [''/etc/patronus/config/FirewallRule-allow-ssh.yaml''
            \<mapsto> Some (generate_config_fw scenario_A)])"
  using scenario_A_creates_rule [of Map.empty stub_yaml]
  by (simp add: stub_yaml_def)

section \<open>SDK client: classification and the sites operations\<close>

lemma handle_error_dict:
  "handle_error s (YDict d) =
     (let message = (case map_of d ''error'' of None \<Rightarrow> YStr ''Unknown error'' | Some v \<Rightarrow> v)
      in if s = 401 then AuthenticationError message
         else if s = 404 then NotFoundError message (Some s) (Some (YDict d))
         else if s = 429 then RateLimitError message (Some s) (Some (YDict d))
         else APIError message (Some s) (Some (YDict d)))"
  by (simp add: handle_error_def dict_get_def Let_def)

lemma handle_error_dict_typed: "is_patronus_error (handle_error s (YDict d))"
  by (simp add: handle_error_dict Let_def)

lemma check_status_Inr: "check_status expected r = Inr u \<longleftrightarrow> resp_status_code r = expected"
  by (auto simp: check_status_def split: sum.splits)

lemma check_status_match: "resp_status_code r = expected \<Longrightarrow> check_status expected r = Inr ()"
  by (simp add: check_status_def)

lemma check_status_mismatch:
  "resp_status_code r \<noteq> expected \<Longrightarrow> resp_json r = Some (YDict d) \<Longrightarrow>
   check_status expected r = Inl (handle_error (resp_status_code r) (YDict d))"
  by (simp add: check_status_def response_json_def)

lemma list_comprehension_Inr:
  "list_comprehension f xs = Inr ys \<longleftrightarrow> map f xs = map Inr ys"
proof (induction xs arbitrary: ys)
  case Nil
  then show ?case by auto
next
  case (Cons x xs)
  show ?case
  proof (cases ys)
    case Nil
    then show ?thesis by (simp split: sum.splits)
  next
    case (Cons y ys')
    then show ?thesis using Cons.IH [of ys'] by (auto split: sum.splits)
  qed
qed

lemma sites_list_Inr:
  "sites_list site r = Inr xs \<longleftrightarrow>
     resp_status_code r = 200 \<and>
     (\<exists>d items its. resp_json r = Some (YDict d) \<and> map_of d ''sites'' = Some items \<and>
        py_iter items = Inr its \<and> map (construct site) its = map Inr xs)"
proof (cases "resp_status_code r = 200")
  case False
  then have "check_status 200 r \<noteq> Inr ()" by (simp add: check_status_Inr)
  then show ?thesis using False by (auto simp: sites_list_def split: sum.splits)
next
  case True
  then have "check_status 200 r = Inr ()" by (rule check_status_match)
  then show ?thesis using True
    by (auto simp: sites_list_def response_json_def py_getitem_def list_comprehension_Inr
        split: sum.splits option.splits yval.splits)
qed

lemma sites_get_Inr:
  "sites_get site r = Inr x \<longleftrightarrow>
     resp_status_code r = 200 \<and> (\<exists>d. resp_json r = Some (YDict d) \<and> site d = Inr x)"
proof (cases "resp_status_code r = 200")
  case False
  then have "check_status 200 r \<noteq> Inr ()" by (simp add: check_status_Inr)
  then show ?thesis using False by (auto simp: sites_get_def split: sum.splits)
next
  case True
  then have "check_status 200 r = Inr ()" by (rule check_status_match)
  then show ?thesis using True
    by (auto simp: sites_get_def response_json_def construct_def
        split: sum.splits option.splits yval.splits)
qed

lemma sites_create_Inr:
  "sites_create site r = Inr x \<longleftrightarrow>
     resp_status_code r = 201 \<and> (\<exists>d. resp_json r = Some (YDict d) \<and> site d = Inr x)"
proof (cases "resp_status_code r = 201")
  case False
  then have "check_status 201 r \<noteq> Inr ()" by (simp add: check_status_Inr)
  then show ?thesis using False by (auto simp: sites_create_def split: sum.splits)
next
  case True
  then have "check_status 201 r = Inr ()" by (rule check_status_match)
  then show ?thesis using True
    by (auto simp: sites_create_def response_json_def construct_def
        split: sum.splits option.splits yval.splits)
qed

lemma sites_mismatch:
  assumes "resp_json r = Some (YDict d)"
  shows "resp_status_code r \<noteq> 200 \<Longrightarrow>
           sites_list site r = Inl (handle_error (resp_status_code r) (YDict d))"
    and "resp_status_code r \<noteq> 200 \<Longrightarrow>
           sites_get site r = Inl (handle_error (resp_status_code r) (YDict d))"
    and "resp_status_code r \<noteq> 201 \<Longrightarrow>
           sites_create site r = Inl (handle_error (resp_status_code r) (YDict d))"
    and "resp_status_code r \<noteq> 204 \<Longrightarrow>
           sites_delete r = Inl (handle_error (resp_status_code r) (YDict d))"
  using assms
  by (simp_all add: sites_list_def sites_get_def sites_create_def sites_delete_def
      check_status_mismatch)

text \<open>
  C1, as stated: for each status code in 401, 404, 429, 500, 503 and a decoded error body,
  the classifier raises the exception kind of the table, and that exception carries the
  status code. It fails at 401: \<^verbatim>\<open>AuthenticationError\<close> is constructed from the message
  alone and has no status code.
\<close>

theorem authentication_error_carries_no_status_code:
  "handle_error 401 (YDict [(''error'', YStr ''Unauthorized'')])
     = AuthenticationError (YStr ''Unauthorized'') \<and>
   exn_status_code (handle_error 401 (YDict [(''error'', YStr ''Unauthorized'')])) \<noteq> Some 401"
  by (simp add: handle_error_dict)

text \<open>
  C1, amended: for a body that decoded to a mapping, with \<open>message\<close> its \<^verbatim>\<open>error\<close> entry
  or the placeholder, 401 raises \<^verbatim>\<open>AuthenticationError\<close> with the message only; 404
  raises \<^verbatim>\<open>NotFoundError\<close>, 429 raises \<^verbatim>\<open>RateLimitError\<close>, and 500, 503 and every other
  code raise \<^verbatim>\<open>APIError\<close>, each with the message, the original status code and the body.
\<close>

theorem error_classification:
  "handle_error 401 (YDict d) =
     AuthenticationError
       (case map_of d ''error'' of None \<Rightarrow> YStr ''Unknown error'' | Some v \<Rightarrow> v) \<and>
   handle_error 404 (YDict d) =
     NotFoundError
       (case map_of d ''error'' of None \<Rightarrow> YStr ''Unknown error'' | Some v \<Rightarrow> v)
       (Some 404) (Some (YDict d)) \<and>
   handle_error 429 (YDict d) =
     RateLimitError
       (case map_of d ''error'' of None \<Rightarrow> YStr ''Unknown error'' | Some v \<Rightarrow> v)
       (Some 429) (Some (YDict d)) \<and>
   handle_error 500 (YDict d) =
     APIError
       (case map_of d ''error'' of None \<Rightarrow> YStr ''Unknown error'' | Some v \<Rightarrow> v)
       (Some 500) (Some (YDict d)) \<and>
   handle_error 503 (YDict d) =
     APIError
       (case map_of d ''error'' of None \<Rightarrow> YStr ''Unknown error'' | Some v \<Rightarrow> v)
       (Some 503) (Some (YDict d)) \<and>
   (status_code \<noteq> 401 \<and> status_code \<noteq> 404 \<and> status_code \<noteq> 429 \<longrightarrow>
    handle_error status_code (YDict d) =
      APIError
        (case map_of d ''error'' of None \<Rightarrow> YStr ''Unknown error'' | Some v \<Rightarrow> v)
        (Some status_code) (Some (YDict d))) \<and>
   (status_code \<noteq> 401 \<longrightarrow>
    exn_status_code (handle_error status_code (YDict d)) = Some status_code)"
  by (simp add: handle_error_dict Let_def)

theorem error_classification_witness:
  "handle_error 429 (YDict [(''error'', YStr ''too many requests'')]) =
     RateLimitError (YStr ''too many requests'') (Some 429)
       (Some (YDict [(''error'', YStr ''too many requests'')])) \<and>
   handle_error 502 (YDict [(''error'', YStr ''too many requests'')]) =
     APIError (YStr ''too many requests'') (Some 502)
       (Some (YDict [(''error'', YStr ''too many requests'')])) \<and>
   exn_status_code (handle_error 502 (YDict [(''error'', YStr ''too many requests'')])) = Some 502"
  using error_classification [of "[(''error'', YStr ''too many requests'')]" 502]
  by simp

text \<open>
  C4. When the decoded body is a mapping without an \<^verbatim>\<open>error\<close> key, the classifier
  raises one of the SDK's exceptions, whatever the status code, and its message is
  \<^verbatim>\<open>"Unknown error"\<close>.
\<close>

theorem missing_error_key_gives_placeholder:
  "map_of d ''error'' = None \<Longrightarrow>
   is_patronus_error (handle_error status_code (YDict d)) \<and>
   exn_message (handle_error status_code (YDict d)) = Some (YStr ''Unknown error'')"
  by (simp add: handle_error_dict Let_def)

theorem missing_error_key_gives_placeholder_witness:
  "map_of ([] :: (string \<times> yval) list) ''error'' = None \<and>
   is_patronus_error (handle_error 500 (YDict [])) \<and>
   exn_message (handle_error 500 (YDict [])) = Some (YStr ''Unknown error'') \<and>
   handle_error 500 (YDict []) = APIError (YStr ''Unknown error'') (Some 500) (Some (YDict []))"
  using missing_error_key_gives_placeholder [of "[]" 500]
  by (simp add: handle_error_dict)

text \<open>
  C5, as stated: any status other than the expected one raises a typed failure. It fails
  when the body of such a response is not JSON: \<^verbatim>\<open>response.json()\<close> is evaluated as the
  argument of \<^verbatim>\<open>_handle_error\<close> and raises first, and what the caller sees is a decoding
  error, which is not one of the SDK's exceptions.
\<close>

theorem sites_undecodable_error_body:
  "sites_delete \<lparr>resp_status_code = 500, resp_json = None\<rparr> = Inl JSONDecodeError \<and>
   sites_list site_stub \<lparr>resp_status_code = 500, resp_json = None\<rparr> = Inl JSONDecodeError \<and>
   \<not> is_patronus_error JSONDecodeError"
  by (simp add: sites_delete_def sites_list_def check_status_def response_json_def)

text \<open>
  C5, amended. \<^verbatim>\<open>list\<close> returns records exactly when the status is 200 and the body is a
  mapping whose \<^verbatim>\<open>sites\<close> entry can be iterated and every item of it is accepted by the
  \<^verbatim>\<open>Site\<close> constructor; the result then holds every item, in order. \<^verbatim>\<open>get\<close> returns a
  record exactly when the status is 200, \<^verbatim>\<open>create\<close> exactly when it is 201, and the body
  is a mapping the constructor accepts. \<^verbatim>\<open>delete\<close> returns exactly when the status is
  204. With any other status and a body that decoded to a mapping, each operation raises
  the exception \<^verbatim>\<open>_handle_error\<close> classifies the response to, one of the SDK's
  exceptions. An operation either returns its whole result or raises.
\<close>

theorem sites_status_gate:
  "(sites_list site r = Inr xs \<longleftrightarrow>
      resp_status_code r = 200 \<and>
      (\<exists>d items its. resp_json r = Some (YDict d) \<and> map_of d ''sites'' = Some items \<and>
         py_iter items = Inr its \<and> map (construct site) its = map Inr xs)) \<and>
   (sites_get site r = Inr x \<longleftrightarrow>
      resp_status_code r = 200 \<and> (\<exists>d. resp_json r = Some (YDict d) \<and> site d = Inr x)) \<and>
   (sites_create site r = Inr x \<longleftrightarrow>
      resp_status_code r = 201 \<and> (\<exists>d. resp_json r = Some (YDict d) \<and> site d = Inr x)) \<and>
   (sites_delete r = Inr () \<longleftrightarrow> resp_status_code r = 204) \<and>
   (resp_json r = Some (YDict d) \<longrightarrow>
      is_patronus_error (handle_error (resp_status_code r) (YDict d)) \<and>
      (resp_status_code r \<noteq> 200 \<longrightarrow>
         sites_list site r = Inl (handle_error (resp_status_code r) (YDict d)) \<and>
         sites_get site r = Inl (handle_error (resp_status_code r) (YDict d))) \<and>
      (resp_status_code r \<noteq> 201 \<longrightarrow>
         sites_create site r = Inl (handle_error (resp_status_code r) (YDict d))) \<and>
      (resp_status_code r \<noteq> 204 \<longrightarrow>
         sites_delete r = Inl (handle_error (resp_status_code r) (YDict d))))"
proof (intro conjI impI)
  show "sites_list site r = Inr xs \<longleftrightarrow>
      resp_status_code r = 200 \<and>
      (\<exists>d items its. resp_json r = Some (YDict d) \<and> map_of d ''sites'' = Some items \<and>
         py_iter items = Inr its \<and> map (construct site) its = map Inr xs)"
    by (rule sites_list_Inr)
  show "sites_get site r = Inr x \<longleftrightarrow>
      resp_status_code r = 200 \<and> (\<exists>d. resp_json r = Some (YDict d) \<and> site d = Inr x)"
    by (rule sites_get_Inr)
  show "sites_create site r = Inr x \<longleftrightarrow>
      resp_status_code r = 201 \<and> (\<exists>d. resp_json r = Some (YDict d) \<and> site d = Inr x)"
    by (rule sites_create_Inr)
  show "sites_delete r = Inr () \<longleftrightarrow> resp_status_code r = 204"
    by (simp add: sites_delete_def check_status_Inr)
next
  assume j: "resp_json r = Some (YDict d)"
  show "is_patronus_error (handle_error (resp_status_code r) (YDict d))"
    by (rule handle_error_dict_typed)
  { assume "resp_status_code r \<noteq> 200"
    then show "sites_list site r = Inl (handle_error (resp_status_code r) (YDict d))"
      and "sites_get site r = Inl (handle_error (resp_status_code r) (YDict d))"
      using j by (simp_all add: sites_mismatch) }
  { assume "resp_status_code r \<noteq> 201"
    then show "sites_create site r = Inl (handle_error (resp_status_code r) (YDict d))"
      using j by (simp add: sites_mismatch) }
  { assume "resp_status_code r \<noteq> 204"
    then show "sites_delete r = Inl (handle_error (resp_status_code r) (YDict d))"
      using j by (simp add: sites_mismatch) }
qed

theorem sites_status_gate_witness:
  "sites_list site_stub
     \<lparr>resp_status_code = 200,
      resp_json = Some (YDict [(''sites'', YList [YDict [(''id'', YStr ''site-1'')],
                                                 YDict [(''id'', YStr ''site-2'')]])])\<rparr>
     = Inr [''site-1'', ''site-2''] \<and>
   sites_get site_stub
     \<lparr>resp_status_code = 404, resp_json = Some (YDict [(''error'', YStr ''Site not found'')])\<rparr>
     = Inl (NotFoundError (YStr ''Site not found'') (Some 404)
              (Some (YDict [(''error'', YStr ''Site not found'')]))) \<and>
   sites_create site_stub
     \<lparr>resp_status_code = 200, resp_json = Some (YDict [(''id'', YStr ''site-1'')])\<rparr>
     = Inl (APIError (YStr ''Unknown error'') (Some 200)
              (Some (YDict [(''id'', YStr ''site-1'')]))) \<and>
   sites_create site_stub
     \<lparr>resp_status_code = 201, resp_json = Some (YDict [(''id'', YStr ''site-1'')])\<rparr>
     = Inr ''site-1'' \<and>
   sites_delete \<lparr>resp_status_code = 204, resp_json = None\<rparr> = Inr ()"
proof -
  let ?r1 = "\<lparr>resp_status_code = 200,
      resp_json = Some (YDict [(''sites'', YList [YDict [(''id'', YStr ''site-1'')],
                                                 YDict [(''id'', YStr ''site-2'')]])])\<rparr>"
  let ?r2 = "\<lparr>resp_status_code = 404,
      resp_json = Some (YDict [(''error'', YStr ''Site not found'')])\<rparr>"
  let ?r3 = "\<lparr>resp_status_code = 200, resp_json = Some (YDict [(''id'', YStr ''site-1'')])\<rparr>"
  let ?r4 = "\<lparr>resp_status_code = 201, resp_json = Some (YDict [(''id'', YStr ''site-1'')])\<rparr>"
  let ?r5 = "\<lparr>resp_status_code = 204, resp_json = None\<rparr>"
  have 1: "sites_list site_stub ?r1 = Inr [''site-1'', ''site-2'']"
    using sites_status_gate [of site_stub ?r1 "[''site-1'', ''site-2'']"]
    by (simp add: construct_def site_stub_def)
  have 2: "sites_get site_stub ?r2 =
      Inl (NotFoundError (YStr ''Site not found'') (Some 404)
              (Some (YDict [(''error'', YStr ''Site not found'')])))"
    using sites_status_gate [of site_stub ?r2 _ _ "[(''error'', YStr ''Site not found'')]"]
    by (simp add: handle_error_dict)
  have 3: "sites_create site_stub ?r3 =
      Inl (APIError (YStr ''Unknown error'') (Some 200) (Some (YDict [(''id'', YStr ''site-1'')])))"
    using sites_status_gate [of site_stub ?r3 _ _ "[(''id'', YStr ''site-1'')]"]
    by (simp add: handle_error_dict)
  have 4: "sites_create site_stub ?r4 = Inr ''site-1''"
    using sites_status_gate [of site_stub ?r4 _ "''site-1''"]
    by (simp add: site_stub_def)
  have 5: "sites_delete ?r5 = Inr ()"
    using sites_status_gate [of site_stub ?r5 "[]" "[]" "[]"] by simp
  from 1 2 3 4 5 show ?thesis by simp
qed

section \<open>Optional fields of a NAT rule\<close>

text \<open>
  C3, as stated: each optional key is in \<^verbatim>\<open>spec\<close> if and only if its parameter was
  provided, a provided integer port included. It fails for a provided empty string and for a
  provided port 0: \<^verbatim>\<open>generate_config\<close> tests \<^verbatim>\<open>if params.get(...)\<close>, which is false for
  both, and leaves the keys out.
\<close>

theorem empty_string_and_port_zero_omitted:
  "nat_source_address empty_and_zero = Some [] \<and>
   nat_translation_port empty_and_zero = Some 0 \<and>
   generate_config_nat empty_and_zero =
     YDict [(''apiVersion'', YStr ''patronus.firewall/v1''),
            (''kind'', YStr ''NatRule''),
            (''metadata'', YDict [(''name'', YStr ''web-server-nat'')]),
            (''spec'',
             YDict [(''nat_type'', YStr ''port_forward''), (''interface'', YStr ''wan0''),
                    (''enabled'', YBool True)])]"
  by (simp add: generate_config_nat_def empty_and_zero_def Let_def set_if_truthy_def opt_str_def
      opt_int_def)

text \<open>
  C3, amended: each optional key is in \<^verbatim>\<open>spec\<close> if and only if its parameter was
  provided with a value that Python takes for true, a string that is not empty or a port
  that is not 0, and the key is then bound to that value. The key of an unset parameter is
  absent.
\<close>

theorem nat_optional_fields:
  "\<exists>sp. dict_get (generate_config_nat p) ''spec'' YNull = Inr (YDict sp) \<and>
     map_of sp ''source_address'' =
       (case nat_source_address p of
          None \<Rightarrow> None | Some a \<Rightarrow> if a = [] then None else Some (YStr a)) \<and>
     map_of sp ''dest_address'' =
       (case nat_dest_address p of
          None \<Rightarrow> None | Some a \<Rightarrow> if a = [] then None else Some (YStr a)) \<and>
     map_of sp ''translation_address'' =
       (case nat_translation_address p of
          None \<Rightarrow> None | Some a \<Rightarrow> if a = [] then None else Some (YStr a)) \<and>
     map_of sp ''translation_port'' =
       (case nat_translation_port p of
          None \<Rightarrow> None | Some i \<Rightarrow> if i = 0 then None else Some (YInt i)) \<and>
     map_of sp ''protocol'' =
       (case nat_protocol p of
          None \<Rightarrow> None | Some a \<Rightarrow> if a = [] then None else Some (YStr a)) \<and>
     map_of sp ''dest_port'' =
       (case nat_dest_port p of
          None \<Rightarrow> None | Some i \<Rightarrow> if i = 0 then None else Some (YInt i))"
  unfolding generate_config_nat_def Let_def dict_get_YDict
  by (simp add: map_of_set_if_truthy opt_str_def opt_int_def split: option.splits)

theorem nat_optional_fields_witness:
  "\<exists>sp. dict_get (generate_config_nat web_server_nat) ''spec'' YNull = Inr (YDict sp) \<and>
     map_of sp ''source_address'' = None \<and>
     map_of sp ''dest_address'' = None \<and>
     map_of sp ''translation_address'' = Some (YStr ''192.168.100.10'') \<and>
     map_of sp ''translation_port'' = Some (YInt 80) \<and>
     map_of sp ''protocol'' = Some (YStr ''tcp'') \<and>
     map_of sp ''dest_port'' = Some (YInt 80)"
  using nat_optional_fields [of web_server_nat]
  by (simp add: web_server_nat_def)

end
